theory Spec2Isabelle
  imports Complex_Main "HOL-Library.Sublist" "HOL-Library.Multiset"
begin

section \<open>Python values\<close>

text \<open>
  A vulnerability record is an open Python dict produced by \<^verbatim>\<open>json.load\<close>. Its values are
  modelled by \<open>pyval\<close>: \<^verbatim>\<open>None\<close>, booleans, integers, floats, strings, lists (JSON
  arrays) and dicts with string keys (JSON objects, each key once, in insertion order).
  Floats are modelled by real numbers: arithmetic is exact, there is no NaN and no infinity.
  Strings are byte strings; the case mappings below are the ASCII ones.
\<close>

datatype pyval = VNone | VBool bool | VInt int | VFloat real | VStr string | VList "pyval list"
  | VDict "(string \<times> pyval) list"

datatype error = ValueError | TypeError | KeyError

type_synonym vuln = "string \<rightharpoonup> pyval"

subsection \<open>Characters and strings\<close>

definition is_digit :: "char \<Rightarrow> bool" where
  "is_digit c = (c \<in> set ''0123456789'')"

definition digit_val :: "char \<Rightarrow> nat" where
  "digit_val c = (case map_of (zip ''0123456789'' [0, 1, 2, 3, 4, 5, 6, 7, 8, 9]) c of
                    Some n \<Rightarrow> n | None \<Rightarrow> 0)"

text \<open>\<^verbatim>\<open>str.isspace\<close> on ASCII: tab, LF, VT, FF, CR, FS, GS, RS, US and space.\<close>

definition is_space :: "char \<Rightarrow> bool" where
  "is_space c = (c \<in> set [CHR 0x09, CHR 0x0A, CHR 0x0B, CHR 0x0C, CHR 0x0D,
                            CHR 0x1C, CHR 0x1D, CHR 0x1E, CHR 0x1F, CHR 0x20])"

definition lower_char :: "char \<Rightarrow> char" where
  "lower_char c = (case map_of (zip ''ABCDEFGHIJKLMNOPQRSTUVWXYZ'' ''abcdefghijklmnopqrstuvwxyz'') c of
                     Some d \<Rightarrow> d | None \<Rightarrow> c)"

definition upper_char :: "char \<Rightarrow> char" where
  "upper_char c = (case map_of (zip ''abcdefghijklmnopqrstuvwxyz'' ''ABCDEFGHIJKLMNOPQRSTUVWXYZ'') c of
                     Some d \<Rightarrow> d | None \<Rightarrow> c)"

definition py_lower :: "string \<Rightarrow> string" where
  "py_lower s = map lower_char s"

definition py_upper :: "string \<Rightarrow> string" where
  "py_upper s = map upper_char s"

definition py_strip :: "string \<Rightarrow> string" where
  "py_strip s = rev (dropWhile is_space (rev (dropWhile is_space s)))"

text \<open>\<^verbatim>\<open>sub in s\<close> for strings.\<close>

definition contains :: "string \<Rightarrow> string \<Rightarrow> bool" where
  "contains s sub = sublist sub s"

text \<open>\<^verbatim>\<open>any(x in s for x in pats)\<close>.\<close>

definition contains_any :: "string \<Rightarrow> string list \<Rightarrow> bool" where
  "contains_any s pats = list_ex (contains s) pats"

text \<open>\<^verbatim>\<open>len(s.split(c))\<close> for a one-character separator: one more than the separators.\<close>

definition split_count :: "string \<Rightarrow> char \<Rightarrow> nat" where
  "split_count s c = Suc (length (filter (\<lambda>d. d = c) s))"

fun intercalate :: "string \<Rightarrow> string list \<Rightarrow> string" where
  "intercalate sep [] = []"
| "intercalate sep [x] = x"
| "intercalate sep (x # y # ys) = x @ sep @ intercalate sep (y # ys)"

subsection \<open>\<^verbatim>\<open>str()\<close> and \<^verbatim>\<open>repr()\<close>\<close>

fun str_nat :: "nat \<Rightarrow> string" where
  "str_nat n = (if n < 10 then [''0123456789'' ! n]
                else str_nat (n div 10) @ [''0123456789'' ! (n mod 10)])"

declare str_nat.simps [simp del]

definition str_int :: "int \<Rightarrow> string" where
  "str_int i = (if i < 0 then ''-'' @ str_nat (nat (- i)) else str_nat (nat i))"

text \<open>
  The decimal expansion of a non-negative fraction, at most \<open>fuel\<close> digits. \<^verbatim>\<open>repr\<close> of a
  float prints the shortest decimal that reads back as the same double; for the value of a
  decimal literal with at most 17 fractional digits and magnitude in \<open>[1e-4, 1e16)\<close> that
  is the literal's own expansion, which \<open>float_repr\<close> produces. Outside that range Python
  switches to exponent notation, which the model does not print.
\<close>

fun frac_digits :: "nat \<Rightarrow> real \<Rightarrow> string" where
  "frac_digits 0 x = []"
| "frac_digits (Suc k) x =
     (if x = 0 then []
      else (''0123456789'' ! nat \<lfloor>x * 10\<rfloor>) # frac_digits k (x * 10 - of_int \<lfloor>x * 10\<rfloor>))"

definition float_repr :: "real \<Rightarrow> string" where
  "float_repr x =
     (let a = \<bar>x\<bar>;
          ds = frac_digits 17 (a - of_int \<lfloor>a\<rfloor>)
      in (if x < 0 then ''-'' else []) @ str_nat (nat \<lfloor>a\<rfloor>) @ ''.'' @ (if ds = [] then ''0'' else ds))"

definition hex2 :: "char \<Rightarrow> string" where
  "hex2 c = [''0123456789abcdef'' ! (of_char c div 16), ''0123456789abcdef'' ! (of_char c mod 16)]"

text \<open>\<^verbatim>\<open>repr\<close> of a string: double quotes when the text holds a single quote and no double
  quote, single quotes otherwise; the quote, the backslash and control characters escaped.\<close>

definition repr_char :: "char \<Rightarrow> char \<Rightarrow> string" where
  "repr_char q c =
     (if c = q \<or> c = CHR 0x5C then [CHR 0x5C, c]
      else if c = CHR 0x0A then [CHR 0x5C, CHR ''n'']
      else if c = CHR 0x0D then [CHR 0x5C, CHR ''r'']
      else if c = CHR 0x09 then [CHR 0x5C, CHR ''t'']
      else if (of_char c :: nat) < 32 \<or> (of_char c :: nat) = 127 then [CHR 0x5C, CHR ''x''] @ hex2 c
      else [c])"

definition str_repr :: "string \<Rightarrow> string" where
  "str_repr s =
     (let q = (if CHR 0x27 \<in> set s \<and> CHR 0x22 \<notin> set s then CHR 0x22 else CHR 0x27)
      in [q] @ concat (map (repr_char q) s) @ [q])"

fun py_repr :: "pyval \<Rightarrow> string" and py_repr_items :: "(string \<times> pyval) list \<Rightarrow> string list" where
  "py_repr VNone = ''None''"
| "py_repr (VBool b) = (if b then ''True'' else ''False'')"
| "py_repr (VInt i) = str_int i"
| "py_repr (VFloat x) = float_repr x"
| "py_repr (VStr s) = str_repr s"
| "py_repr (VList xs) = ''['' @ intercalate '', '' (map py_repr xs) @ '']''"
| "py_repr (VDict kvs) = ''{'' @ intercalate '', '' (py_repr_items kvs) @ ''}''"
| "py_repr_items [] = []"
| "py_repr_items ((k, v) # kvs) = (str_repr k @ '': '' @ py_repr v) # py_repr_items kvs"

fun py_str :: "pyval \<Rightarrow> string" where
  "py_str (VStr s) = s"
| "py_str v = py_repr v"

subsection \<open>Truth values, dict access, conversions\<close>

fun truthy :: "pyval \<Rightarrow> bool" where
  "truthy VNone = False"
| "truthy (VBool b) = b"
| "truthy (VInt i) = (i \<noteq> 0)"
| "truthy (VFloat x) = (x \<noteq> 0)"
| "truthy (VStr s) = (s \<noteq> [])"
| "truthy (VList xs) = (xs \<noteq> [])"
| "truthy (VDict kvs) = (kvs \<noteq> [])"

text \<open>\<^verbatim>\<open>d.get(k)\<close> and \<^verbatim>\<open>d.get(k, default)\<close>.\<close>

definition vget :: "vuln \<Rightarrow> string \<Rightarrow> pyval" where
  "vget d k = (case d k of None \<Rightarrow> VNone | Some v \<Rightarrow> v)"

definition vget_default :: "vuln \<Rightarrow> string \<Rightarrow> pyval \<Rightarrow> pyval" where
  "vget_default d k dflt = (case d k of None \<Rightarrow> dflt | Some v \<Rightarrow> v)"

text \<open>\<^verbatim>\<open>str(d.get(k, ''))\<close>, the way the calculators read a text field.\<close>

definition str_field :: "vuln \<Rightarrow> string \<Rightarrow> string" where
  "str_field d k = py_str (vget_default d k (VStr []))"

text \<open>The flag test \<^verbatim>\<open>val is True or str(val).lower() == 'true'\<close> used throughout.\<close>

definition is_true :: "pyval \<Rightarrow> bool" where
  "is_true v = (v = VBool True \<or> py_lower (py_str v) = ''true'')"

text \<open>The guard \<^verbatim>\<open>val is None or str(val).lower() in ['nan', 'none', '']\<close>.\<close>

definition is_blank :: "pyval \<Rightarrow> bool" where
  "is_blank v = (v = VNone \<or> py_lower (py_str v) \<in> set [''nan'', ''none'', ''''])"

text \<open>
  \<^verbatim>\<open>float(s)\<close> for a string: optional surrounding whitespace, a sign, decimal digits with
  an optional fraction, an optional exponent. \<open>None\<close> stands for ValueError. Digit grouping
  with underscores and the texts of the non-finite floats (\<^verbatim>\<open>inf\<close>, \<^verbatim>\<open>nan\<close>) are not
  modelled: they answer \<open>None\<close>.
\<close>

definition digits_val :: "string \<Rightarrow> nat" where
  "digits_val ds = foldl (\<lambda>a c. 10 * a + digit_val c) 0 ds"

definition split_sign :: "string \<Rightarrow> bool \<times> string" where
  "split_sign s = (case s of
       [] \<Rightarrow> (False, [])
     | c # cs \<Rightarrow> if c = CHR ''-'' then (True, cs) else if c = CHR ''+'' then (False, cs) else (False, s))"

definition parse_exponent :: "string \<Rightarrow> int option" where
  "parse_exponent r =
     (case r of
        [] \<Rightarrow> Some 0
      | c # cs \<Rightarrow>
          if c = CHR ''e'' \<or> c = CHR ''E'' then
            (let (neg, ds) = split_sign cs
             in if ds \<noteq> [] \<and> list_all is_digit ds
                then Some (if neg then - int (digits_val ds) else int (digits_val ds))
                else None)
          else None)"

definition parse_float :: "string \<Rightarrow> real option" where
  "parse_float s =
     (let (neg, u) = split_sign (py_strip s);
          ip = takeWhile is_digit u;
          r1 = dropWhile is_digit u;
          fp = (case r1 of c # cs \<Rightarrow> if c = CHR ''.'' then takeWhile is_digit cs else [] | [] \<Rightarrow> []);
          r2 = (case r1 of c # cs \<Rightarrow> if c = CHR ''.'' then dropWhile is_digit cs else r1 | [] \<Rightarrow> [])
      in if ip = [] \<and> fp = [] then None
         else (case parse_exponent r2 of
                 None \<Rightarrow> None
               | Some e \<Rightarrow>
                   (let m = real (digits_val ip) + real (digits_val fp) / 10 ^ length fp;
                        v = (if e < 0 then m / 10 ^ nat (- e) else m * 10 ^ nat e)
                    in Some (if neg then - v else v))))"

text \<open>\<^verbatim>\<open>float(v)\<close>; \<open>None\<close> stands for the ValueError or TypeError every caller catches.\<close>

fun py_float :: "pyval \<Rightarrow> real option" where
  "py_float VNone = None"
| "py_float (VBool b) = Some (if b then 1 else 0)"
| "py_float (VInt i) = Some (of_int i)"
| "py_float (VFloat x) = Some x"
| "py_float (VStr s) = parse_float s"
| "py_float (VList xs) = None"
| "py_float (VDict kvs) = None"

text \<open>\<^verbatim>\<open>int(s)\<close> for a string: whitespace, a sign, decimal digits (no underscores).\<close>

definition parse_int :: "string \<Rightarrow> int option" where
  "parse_int s =
     (let (neg, ds) = split_sign (py_strip s)
      in if ds \<noteq> [] \<and> list_all is_digit ds
         then Some (if neg then - int (digits_val ds) else int (digits_val ds))
         else None)"

text \<open>\<^verbatim>\<open>re.findall(r'\d+', s)\<close>: the maximal runs of digits.\<close>

fun digit_runs_aux :: "string \<Rightarrow> string \<Rightarrow> string list" where
  "digit_runs_aux cur [] = (if cur = [] then [] else [cur])"
| "digit_runs_aux cur (c # cs) =
     (if is_digit c then digit_runs_aux (cur @ [c]) cs
      else (if cur = [] then [] else [cur]) @ digit_runs_aux [] cs)"

definition digit_runs :: "string \<Rightarrow> string list" where
  "digit_runs s = digit_runs_aux [] s"

section \<open>Configuration (models.py)\<close>

text \<open>
  \<^verbatim>\<open>ProcessingConfig\<close>, with the funnel fields that \<^verbatim>\<open>_ensure_config_defaults\<close> and
  \<^verbatim>\<open>main\<close> attach. The weight dicts are association lists.
\<close>

record ProcessingConfig =
  weights :: "(string \<times> real) list"
  funnel_enabled :: bool
  top_k_for_funnel :: int
  funnel_threshold :: int
  funnel_equal_epsilon :: real
  mcdm_use_topsis :: bool
  mcdm_weights :: "(string \<times> real) list"

definition DEFAULT_MCDM_WEIGHTS :: "(string \<times> real) list" where
  "DEFAULT_MCDM_WEIGHTS =
     [(''q1'', 0.22), (''q2'', 0.18), (''q3'', 0.26), (''q5'', 0.14),
      (''epss'', 0.08), (''occ'', 0.06), (''conf'', 0.04), (''effort'', 0.02)]"

definition default_config :: ProcessingConfig where
  "default_config =
     \<lparr> weights = [(''q1'', 0.30), (''q2'', 0.20), (''q3'', 0.25), (''q4'', 0.10), (''q5'', 0.15)],
       funnel_enabled = True, top_k_for_funnel = 1000, funnel_threshold = 50,
       funnel_equal_epsilon = 1 / 10000, mcdm_use_topsis = True,
       mcdm_weights = DEFAULT_MCDM_WEIGHTS \<rparr>"

text \<open>\<^verbatim>\<open>ProcessingConfig.validate\<close>: raises ValueError unless the weights sum to 1.0 within 0.01.\<close>

definition validate :: "ProcessingConfig \<Rightarrow> error + bool" where
  "validate cfg =
     (let total_weight = sum_list (map snd (weights cfg))
      in if \<bar>total_weight - 1\<bar> > 0.01 then Inl ValueError else Inr True)"

section \<open>External signals (q1\_calculator.py, \<^verbatim>\<open>ExternalDataFetcher\<close>)\<close>

text \<open>
  The caches the fetcher holds when scoring starts. \<open>kev_recent\<close> stands for the outcome of
  \<^verbatim>\<open>(datetime.utcnow() - date_added) <= timedelta(days=60)\<close> on a parsable date: the clock is
  an input. \<open>nvd_references\<close> stands for what the NVD lookup \<^verbatim>\<open>_nvd_references\<close> answers
  for a CVE; only the four flags \<^verbatim>\<open>check_poc_availability\<close> reads are kept.
\<close>

record kev_entry =
  known_ransomware :: bool
  kev_recent :: bool

record epss_entry =
  epss :: real
  percentile :: real

record nvd_refs =
  has_exploit_ref :: bool
  has_exploitdb :: bool
  has_metasploit :: bool
  has_nuclei :: bool

record fetcher =
  kev_data :: "string \<rightharpoonup> kev_entry"
  epss_data :: "string \<rightharpoonup> epss_entry"
  nvd_references :: "string \<Rightarrow> nvd_refs"

text \<open>The ranges the signal provider promises for EPSS: score in 0..1, percentile in 0..100.\<close>

definition epss_in_range :: "fetcher \<Rightarrow> bool" where
  "epss_in_range f =
     (\<forall>c e. epss_data f c = Some e \<longrightarrow>
        0 \<le> epss e \<and> epss e \<le> 1 \<and> 0 \<le> percentile e \<and> percentile e \<le> 100)"

record poc_result =
  poc_has_poc :: bool
  poc_maturity :: real
  poc_weaponized :: bool

text \<open>
  \<^verbatim>\<open>extract_cve_id\<close>: the first match of \<^verbatim>\<open>(CVE-\d{4}-\d{4,7})\<close>, ignoring case, in
  upper case; the empty string when there is none. \<open>match_cve_at\<close> matches at the start of
  its argument.
\<close>

definition match_cve_at :: "string \<Rightarrow> string option" where
  "match_cve_at s =
     (let year = take 4 (drop 4 s);
          rest = drop 8 s;
          num = takeWhile is_digit (drop 1 rest)
      in if py_lower (take 4 s) = ''cve-'' \<and> length year = 4 \<and> list_all is_digit year
            \<and> take 1 rest = ''-'' \<and> 4 \<le> length num
         then Some (take 4 s @ year @ ''-'' @ take 7 num)
         else None)"

fun search_cve :: "string \<Rightarrow> string option" where
  "search_cve [] = None"
| "search_cve (c # cs) =
     (case match_cve_at (c # cs) of Some m \<Rightarrow> Some m | None \<Rightarrow> search_cve cs)"

definition extract_cve_id :: "pyval \<Rightarrow> string" where
  "extract_cve_id v =
     (case v of
        VNone \<Rightarrow> []
      | _ \<Rightarrow>
        (let s = (case v of VList xs \<Rightarrow> intercalate '','' (map py_str xs) | _ \<Rightarrow> py_str v)
         in case search_cve s of Some m \<Rightarrow> py_upper m | None \<Rightarrow> []))"

text \<open>
  \<^verbatim>\<open>check_poc_availability\<close>. The cache \<^verbatim>\<open>poc_cache\<close> only stores what this function
  computed for the same CVE, and \<^verbatim>\<open>last_seen\<close> is never set, so the answer is this
  function of the NVD flags and the KEV catalogue.
\<close>

definition check_poc_availability :: "fetcher \<Rightarrow> pyval \<Rightarrow> poc_result" where
  "check_poc_availability f cve_id =
     (let cve = extract_cve_id cve_id;
          dflt = \<lparr> poc_has_poc = False, poc_maturity = 0, poc_weaponized = False \<rparr>
      in if cve = [] then dflt
         else
          (let nvd = nvd_references f cve;
               o1 = (if has_exploit_ref nvd
                     then dflt \<lparr> poc_has_poc := True, poc_maturity := max (poc_maturity dflt) 70 \<rparr>
                     else dflt);
               o2 = (if has_exploitdb nvd
                     then o1 \<lparr> poc_weaponized := True, poc_has_poc := True, poc_maturity := max (poc_maturity o1) 90 \<rparr>
                     else o1);
               o3 = (if has_metasploit nvd
                     then o2 \<lparr> poc_weaponized := True, poc_has_poc := True, poc_maturity := max (poc_maturity o2) 100 \<rparr>
                     else o2);
               o4 = (if has_nuclei nvd
                     then o3 \<lparr> poc_has_poc := True, poc_maturity := max (poc_maturity o3) 55 \<rparr>
                     else o3)
           in (case kev_data f cve of
                 Some k \<Rightarrow> if known_ransomware k
                           then o4 \<lparr> poc_maturity := min 100 (max (poc_maturity o4) 95) \<rparr>
                           else o4
               | None \<Rightarrow> o4)))"

section \<open>Classifier (q2\_calculator.py, \<^verbatim>\<open>VulnerabilityClassifier\<close>)\<close>

text \<open>The patterns are plain texts (\<^verbatim>\<open>asp\.net\<close> is the literal \<^verbatim>\<open>asp.net\<close>), so
  \<^verbatim>\<open>re.search\<close> is substring search. The dict keeps its insertion order.\<close>

definition DOMAIN_PATTERNS :: "(string \<times> string list) list" where
  "DOMAIN_PATTERNS =
     [(''web_api'', [''spring'', ''struts'', ''tomcat'', ''jetty'', ''express'', ''fastapi'',
                     ''django'', ''flask'', ''rails'', ''asp.net'', ''nginx'', ''apache'']),
      (''backend'', [''java'', ''python'', ''node'', ''dotnet'', ''golang'', ''rust'',
                     ''spring-security'', ''auth'', ''jwt'', ''oauth'']),
      (''database'', [''mysql'', ''postgres'', ''oracle'', ''mongodb'', ''redis'', ''elastic'',
                      ''jdbc'', ''odbc'', ''hibernate'', ''sqlalchemy'']),
      (''search_index'', [''solr'', ''elastic'', ''lucene'', ''sphinx'', ''algolia'']),
      (''messaging'', [''kafka'', ''rabbitmq'', ''activemq'', ''redis'', ''zeromq'', ''nats'']),
      (''infrastructure'', [''docker'', ''kubernetes'', ''terraform'', ''ansible'', ''aws'', ''azure'']),
      (''frontend'', [''react'', ''vue'', ''angular'', ''jquery'', ''bootstrap'', ''webpack'',
                      ''babel'', ''postcss'', ''sass'', ''less'']),
      (''build_tools'', [''maven'', ''gradle'', ''npm'', ''yarn'', ''webpack'', ''rollup'', ''vite'']),
      (''big_data'', [''hadoop'', ''spark'', ''hive'', ''presto'', ''flink'', ''storm''])]"

definition classify_domain :: "vuln \<Rightarrow> string" where
  "classify_domain v =
     (let component = py_lower (str_field v ''component_name'');
          file_path = py_lower (str_field v ''file_path'');
          service = py_lower (str_field v ''service'');
          test = py_lower (str_field v ''test'')
      in case find (\<lambda>(domain, patterns).
                     list_ex (\<lambda>p. contains component p \<or> contains file_path p \<or> contains service p)
                       patterns) DOMAIN_PATTERNS of
           Some (domain, patterns) \<Rightarrow> domain
         | None \<Rightarrow>
             if contains test ''dependency'' then
               (if contains test ''frontend'' then ''frontend'' else ''backend'')
             else if contains test ''sast'' then ''backend''
             else if contains test ''infrastructure'' \<or> contains test ''prowler'' then ''infrastructure''
             else ''general'')"

definition is_runtime_dependency :: "vuln \<Rightarrow> bool" where
  "is_runtime_dependency v =
     (let file_path = py_lower (str_field v ''file_path'')
      in if contains_any file_path
              [''test/'', ''tests/'', ''spec/'', ''mock/'', ''dev-dependencies'',
               ''devdependencies'', ''test-'', ''-test'', ''example/'', ''sample/'']
         then False
         else if contains_any file_path
              [''boot-inf/lib'', ''web-inf/lib'', ''/lib/'', ''.jar'', ''.war'',
               ''node_modules'', ''vendor/'', ''site-packages'', ''requirements.txt'']
         then True
         else True)"

section \<open>Q1 exploitability (q1\_calculator.py)\<close>

definition q1_env_fit :: "vuln \<Rightarrow> real" where
  "q1_env_fit v =
     (let file_path = py_lower (str_field v ''file_path'');
          is_dev = contains_any file_path
                     [''test/'', ''tests/'', ''spec/'', ''mock/'', ''dev-dependencies'',
                      ''devdependencies'', ''example/'', ''sample/'', ''-test''];
          is_runtime = (\<not> is_dev \<and> contains_any file_path
                     [''boot-inf/lib'', ''web-inf/lib'', ''/lib/'', ''.jar'', ''.war'',
                      ''node_modules'', ''vendor/'', ''site-packages'', ''requirements.txt'']);
          env_fit = (if is_runtime then 80 else 30);
          domain_text = py_lower (str_field v ''component_name'' @ '' '' @ str_field v ''service'');
          domain_bonus = (if contains_any domain_text
                     [''spring'', ''tomcat'', ''nginx'', ''apache'', ''postgres'', ''mysql'',
                      ''redis'', ''elastic'', ''solr'']
                          then 10 else 0)
      in min 100 (env_fit + domain_bonus))"

definition class_weight_of :: "string list \<Rightarrow> real" where
  "class_weight_of ids =
     (let critical = [''78'', ''77'', ''94'', ''502'', ''74'', ''89'', ''564'', ''918'', ''287'',
                      ''306'', ''862'', ''863'', ''22'', ''23'', ''35'', ''611'', ''827''];
          medium = [''79'', ''80'', ''352''];
          low = [''200'', ''209'', ''532'', ''400'', ''770'']
      in if list_ex (\<lambda>i. i \<in> set critical) ids then 90
         else if list_ex (\<lambda>i. i \<in> set medium) ids then 60
         else if list_ex (\<lambda>i. i \<in> set low) ids then 40
         else 50)"

definition q1_class_weight :: "vuln \<Rightarrow> real" where
  "q1_class_weight v = class_weight_of (digit_runs (str_field v ''cwe''))"

text \<open>The base score of line 305 and the EPSS entry \<^verbatim>\<open>epss_data.get(cve, {})\<close>, whose
  missing keys read as 0.\<close>

definition q1_base :: "vuln \<Rightarrow> fetcher \<Rightarrow> real" where
  "q1_base v f =
     (let cve = extract_cve_id (vget v ''vulnerability_ids'');
          poc = check_poc_availability f (VStr cve)
      in 0.5 * poc_maturity poc + 0.3 * q1_env_fit v + 0.2 * q1_class_weight v)"

definition q1_epss_info :: "vuln \<Rightarrow> fetcher \<Rightarrow> epss_entry" where
  "q1_epss_info v f =
     (case epss_data f (extract_cve_id (vget v ''vulnerability_ids'')) of
        Some e \<Rightarrow> e
      | None \<Rightarrow> \<lparr> epss = 0, percentile = 0 \<rparr>)"

definition calculate_q1_exploitability :: "vuln \<Rightarrow> fetcher \<Rightarrow> real" where
  "calculate_q1_exploitability v f =
     (let q1 = q1_base v f;
          epss_score = epss (q1_epss_info v f);
          epss_percentile = percentile (q1_epss_info v f);
          q1' = (if epss_score > 0 then q1 + (20 * epss_score + 0.1 * epss_percentile) else q1)
      in min 100 q1')"

section \<open>Q2 exposure (q2\_calculator.py)\<close>

text \<open>
  The debug line \<^verbatim>\<open>logger.debug(f"URL detected: {url[:50]}...")\<close> slices the raw field, so a
  truthy URL that is a number, a boolean or a dict raises inside the URL branch: TypeError
  (for a dict, Python 3.12 and later raise KeyError instead; the worker catches either).
\<close>

definition sliceable :: "pyval \<Rightarrow> bool" where
  "sliceable v = (case v of VStr s \<Rightarrow> True | VList xs \<Rightarrow> True | _ \<Rightarrow> False)"

definition q2_url_present :: "vuln \<Rightarrow> bool" where
  "q2_url_present v = (truthy (vget v ''url'') \<and> \<not> is_blank (vget v ''url''))"

definition q2_after_url :: "vuln \<Rightarrow> real \<Rightarrow> real" where
  "q2_after_url v e0 =
     (if q2_url_present v then
        (let url_lower = py_lower (py_str (vget v ''url''));
             e1 = max e0 85;
             e2 = (if contains_any url_lower [''https://'', ''http://'', ''ws://'', ''wss://'']
                   then max e1 90 else e1)
         in if contains_any url_lower [''.com'', ''.org'', ''.net'', ''.io'', ''public'', ''external'']
            then 95
            else if contains_any url_lower [''localhost'', ''127.0.0.1'', ''internal'', ''private'']
            then min e2 60
            else e2)
      else e0)"

definition q2_endpoint_count :: "string \<Rightarrow> nat" where
  "q2_endpoint_count endpoints_str =
     (if CHR '','' \<in> set endpoints_str then split_count endpoints_str CHR '',''
      else if CHR '';'' \<in> set endpoints_str then split_count endpoints_str CHR '';''
      else if CHR 0x0A \<in> set endpoints_str then split_count endpoints_str (CHR 0x0A)
      else if length endpoints_str > 0 then 1 else 0)"

definition q2_after_endpoints :: "vuln \<Rightarrow> real \<Rightarrow> real" where
  "q2_after_endpoints v e0 =
     (let endpoints = vget v ''endpoints''
      in if truthy endpoints \<and> \<not> is_blank endpoints then
           (let endpoints_str = py_str endpoints;
                endpoint_count = q2_endpoint_count endpoints_str
            in if endpoint_count > 0 then
                 (let e1 = max e0 (50 + min 40 (real endpoint_count * 5));
                      e2 = (if contains_any (py_lower endpoints_str) [''/api/'', ''/rest/'', ''/graphql'', ''/ws'']
                            then max e1 70 else e1)
                  in if contains_any (py_lower endpoints_str) [''/admin'', ''/manage'', ''/config'']
                     then max e2 60 else e2)
               else e0)
         else e0)"

definition q2_context :: "vuln \<Rightarrow> string" where
  "q2_context v =
     py_lower (intercalate '' '' [str_field v ''product'', str_field v ''service'', str_field v ''url'',
                                  str_field v ''title'', str_field v ''engagement''])"

definition q2_is_prod :: "vuln \<Rightarrow> bool" where
  "q2_is_prod v = contains_any (q2_context v) [''prod'', ''production'', ''prd'', ''live'', ''release'']"

definition q2_is_dev :: "vuln \<Rightarrow> bool" where
  "q2_is_dev v = contains_any (q2_context v)
     [''dev'', ''development'', ''test'', ''testing'', ''stage'', ''staging'',
      ''stg'', ''homolog'', ''hml'', ''qa'', ''uat'', ''sandbox'', ''demo'']"

definition q2_domain_multiplier :: "string \<Rightarrow> real" where
  "q2_domain_multiplier domain =
     (case map_of [(''web_api'', 1.3), (''database'', 1.2), (''infrastructure'', 1.2),
                   (''search_index'', 1.15), (''messaging'', 1.1), (''backend'', 1.05),
                   (''frontend'', 0.9), (''build_tools'', 0.7)] domain of
        Some m \<Rightarrow> m | None \<Rightarrow> 1.0)"

definition q2_exposure_score :: "vuln \<Rightarrow> real" where
  "q2_exposure_score v =
     (let is_dynamic = is_true (vget v ''dynamic_finding'');
          is_static = is_true (vget v ''static_finding'');
          e1 = (if is_dynamic then 75 else if is_static then 35 else 20);
          e2 = (if is_true (vget v ''verified'')
                then (if is_dynamic then min 100 (e1 * 1.2) else min 100 (e1 * 1.15))
                else e1);
          e3 = q2_after_url v e2;
          e4 = q2_after_endpoints v e3;
          e5 = (if q2_is_prod v \<and> \<not> q2_is_dev v then min 100 (e4 * 1.3)
                else if q2_is_dev v \<and> \<not> q2_is_prod v then max 10 (e4 * 0.7)
                else e4);
          service = py_lower (str_field v ''service'')
      in if service \<noteq> [] \<and> service \<noteq> ''nan'' \<and>
            contains_any service [''auth'', ''login'', ''gateway'', ''api'', ''edge'', ''public'',
                                  ''portal'', ''www'', ''web'', ''frontend'', ''customer'']
         then max e5 60 else e5)"

definition q2_reachability_score :: "vuln \<Rightarrow> real" where
  "q2_reachability_score v =
     (let r0 = 30;
          r1 = (if q2_is_prod v \<and> \<not> q2_is_dev v then min 100 (r0 * 1.3)
                else if q2_is_dev v \<and> \<not> q2_is_prod v then max 10 (r0 * 0.7)
                else r0);
          r2 = (if is_runtime_dependency v then max r1 70 else min r1 40)
      in min 100 (r2 * q2_domain_multiplier (classify_domain v)))"

definition calculate_q2_exposure :: "vuln \<Rightarrow> error + real" where
  "calculate_q2_exposure v =
     (if q2_url_present v \<and> \<not> sliceable (vget v ''url'') then Inl TypeError
      else
        (let q2_score = 0.6 * q2_exposure_score v + 0.4 * q2_reachability_score v
         in Inr (min 100 (max 0 q2_score))))"

section \<open>Q3 impact (q3\_calculator.py)\<close>

text \<open>\<^verbatim>\<open>safe_float(val, default)\<close> of Q3, also \<^verbatim>\<open>safe_value\<close> of the tie-breaker without
  negation.\<close>

definition safe_float :: "pyval \<Rightarrow> real \<Rightarrow> real" where
  "safe_float val dflt =
     (if is_blank val then dflt else (case py_float val of Some x \<Rightarrow> x | None \<Rightarrow> dflt))"

definition severity_map :: "(string \<times> real) list" where
  "severity_map =
     [(''critical'', 90), (''s4'', 90), (''high'', 70), (''s3'', 70), (''medium'', 50), (''s2'', 50),
      (''low'', 30), (''s1'', 30), (''informational'', 10), (''info'', 10), (''s0'', 10)]"

definition q3_base_impact :: "vuln \<Rightarrow> real" where
  "q3_base_impact v =
     (let cvss_score = safe_float (vget v ''cvssv3_score'') 0
      in if cvss_score > 0 then cvss_score * 10
         else
          (let severity0 = py_lower (str_field v ''severity'');
               severity = (if severity0 = [] then py_lower (str_field v ''numerical_severity'')
                           else severity0)
           in case map_of severity_map severity of Some b \<Rightarrow> b | None \<Rightarrow> 50))"

text \<open>\<^verbatim>\<open>math.log10\<close>. It has no code equation: evaluation leaves it symbolic.\<close>

definition math_log10 :: "real \<Rightarrow> real" where
  "math_log10 x = log 10 x"

declare math_log10_def [code del]

text \<open>The occurrence amplifier; 1 when \<^verbatim>\<open>nb_occurences > 1\<close> fails.\<close>

definition q3_occurrence_multiplier :: "real \<Rightarrow> real" where
  "q3_occurrence_multiplier nb_occurences =
     (if nb_occurences > 1 then
        (if nb_occurences \<ge> 500 then 2.5
         else if nb_occurences \<ge> 100 then 2.0
         else if nb_occurences \<ge> 50 then 1.6
         else if nb_occurences \<ge> 20 then 1.4
         else if nb_occurences \<ge> 10 then 1.3
         else if nb_occurences \<ge> 5 then 1.2
         else 1.0 + math_log10 nb_occurences * 0.2)
      else 1)"

definition q3_criticality_multiplier :: "pyval \<Rightarrow> real" where
  "q3_criticality_multiplier criticality =
     (if truthy criticality \<and> py_str criticality \<noteq> ''NaN'' then
        (let s0 = py_strip (py_str criticality);
             crit_str = (if take 1 s0 = ''0'' then drop 1 s0 else s0)
         in case parse_int crit_str of
              None \<Rightarrow> 1
            | Some crit_value \<Rightarrow>
                if crit_value \<ge> 9 then 1.4
                else if crit_value \<ge> 8 then 1.3
                else if crit_value \<ge> 7 then 1.2
                else if crit_value \<ge> 6 then 1.1
                else if crit_value \<le> 3 then 0.8
                else 1)
      else 1)"

definition q3_domain_multiplier :: "string \<Rightarrow> real" where
  "q3_domain_multiplier domain =
     (case map_of [(''database'', 1.4), (''infrastructure'', 1.3), (''search_index'', 1.2),
                   (''backend'', 1.15), (''web_api'', 1.1), (''messaging'', 1.05),
                   (''frontend'', 0.9), (''build_tools'', 0.7)] domain of
        Some m \<Rightarrow> m | None \<Rightarrow> 1.0)"

definition high_sensitivity_keywords :: "string list" where
  "high_sensitivity_keywords =
     [''auth'', ''authentication'', ''authorization'', ''crypto'', ''cryptograph'', ''encrypt'',
      ''password'', ''passwd'', ''credential'', ''token'', ''jwt'', ''oauth'', ''saml'',
      ''session'', ''cookie'', ''payment'', ''credit'', ''card'', ''billing'',
      ''personal'', ''pii'', ''gdpr'', ''sensitive'']"

definition q3_sensitivity_multiplier :: "vuln \<Rightarrow> real" where
  "q3_sensitivity_multiplier v =
     (let search_text = py_lower (str_field v ''component_name'') @ '' '' @
                        py_lower (str_field v ''title'') @ '' '' @
                        py_lower (str_field v ''description'');
          sensitivity_count = length (filter (contains search_text) high_sensitivity_keywords)
      in if sensitivity_count \<ge> 3 then 1.3 else if sensitivity_count \<ge> 1 then 1.15 else 1)"

definition calculate_q3_impact :: "vuln \<Rightarrow> real" where
  "calculate_q3_impact v =
     (let base_impact = q3_base_impact v
                        * q3_occurrence_multiplier (safe_float (vget v ''nb_occurences'') 1)
                        * q3_criticality_multiplier (vget v ''criticality'')
                        * q3_domain_multiplier (classify_domain v)
                        * q3_sensitivity_multiplier v
                        * (if is_true (vget v ''verified'') then 1.05 else 1)
      in min 100 (max 0 base_impact))"

section \<open>Q4 fixability (q4\_calculator.py)\<close>

text \<open>\<^verbatim>\<open>has_jira == True\<close>: Python equality with \<^verbatim>\<open>True\<close> holds for the number one too.\<close>

definition eq_True :: "pyval \<Rightarrow> bool" where
  "eq_True v = (v = VBool True \<or> v = VInt 1 \<or> v = VFloat 1)"

definition q4_effort_friction :: "pyval \<Rightarrow> real" where
  "q4_effort_friction effort =
     (if truthy effort \<and> py_str effort \<noteq> ''NaN'' then
        (case py_float effort of
           Some effort_val \<Rightarrow> effort_val * 10
         | None \<Rightarrow>
            (let effort_str = py_upper (py_str effort)
             in if contains effort_str ''HIGH'' \<or> contains effort_str ''COMPLEX'' then 40
                else if contains effort_str ''MEDIUM'' \<or> contains effort_str ''MODERATE'' then 20
                else if contains effort_str ''LOW'' \<or> contains effort_str ''SIMPLE'' then 10
                else 0))
      else 0)"

definition q4_fix_friction :: "vuln \<Rightarrow> real" where
  "q4_fix_friction v =
     (let mitigation = py_lower (str_field v ''mitigation'');
          f0 = (if contains mitigation ''upgrade to version'' \<or> contains mitigation ''update''
                then 0 else 30);
          f1 = f0 + q4_effort_friction (vget_default v ''effort_for_fixing'' (VStr []));
          has_jira = vget_default v ''has_jira_issue'' (VBool False);
          f2 = (if truthy has_jira \<and> py_str has_jira \<noteq> ''NaN'' \<and>
                   (eq_True has_jira \<or> py_lower (py_str has_jira) = ''true'')
                then f1 - 20 else f1)
      in if classify_domain v \<in> set [''database'', ''infrastructure''] then f2 + 20 else f2)"

definition calculate_q4_fixability :: "vuln \<Rightarrow> real" where
  "calculate_q4_fixability v = max 0 (min 100 (100 - q4_fix_friction v))"

section \<open>Q5 urgency (q5\_calculator.py)\<close>

text \<open>\<^verbatim>\<open>_safe_float(val, None)\<close>; with a default it is \<open>safe_float\<close>.\<close>

definition safe_float_opt :: "pyval \<Rightarrow> real option" where
  "safe_float_opt val = (if is_blank val then None else py_float val)"

definition exposure_factor :: "vuln \<Rightarrow> real" where
  "exposure_factor v =
     (case safe_float_opt (vget v ''q2_exposure'') of
        Some q2 \<Rightarrow>
          if q2 \<ge> 60 then 1.00 else if q2 \<ge> 40 then 0.90 else if q2 \<ge> 20 then 0.85 else 0.70
      | None \<Rightarrow>
         (let url = py_lower (str_field v ''url'');
              dynamic = is_true (vget v ''dynamic_finding'');
              runtime = is_true (vget v ''is_runtime'');
              ctx = py_lower (intercalate '' '' [str_field v ''environment'', str_field v ''service'', url]);
              is_prod = contains_any ctx [''prod'', ''production'', ''prd'', ''live''];
              publicish = contains_any url [''http://'', ''https://'', ''.com'', ''.org'', ''.net'',
                                            ''.io'', ''public'', ''external''];
              score = (if publicish then 40 else 0) + (if dynamic then 30 else 0)
                      + (if runtime then 20 else 0) + (if is_prod then (20::nat) else 0)
          in if score \<ge> 70 then 1.00 else if score \<ge> 40 then 0.90
             else if score \<ge> 20 then 0.85 else 0.70))"

datatype tier = T_none | T_low | T_med | T_high | T_critical

record threat =
  t_score :: real
  t_tier :: tier
  t_has_poc :: bool
  t_has_kev :: bool
  t_epss_score :: real
  t_epss_percentile :: real

text \<open>The entries of \<^verbatim>\<open>epss_data\<close> are floats written by \<^verbatim>\<open>fetch_epss_scores\<close>, so
  \<^verbatim>\<open>_safe_float(e.get('epss'), 0.0) or 0.0\<close> is the entry's value.\<close>

definition threat_block :: "vuln \<Rightarrow> fetcher \<Rightarrow> threat" where
  "threat_block v f =
     (let cve = py_strip (str_field v ''vulnerability_ids'');
          epss_score = (case (if cve \<noteq> [] then epss_data f cve else None) of
                          Some e \<Rightarrow> epss e
                        | None \<Rightarrow> safe_float (vget v ''epss_score'') 0);
          epss_percentile = (case (if cve \<noteq> [] then epss_data f cve else None) of
                          Some e \<Rightarrow> percentile e
                        | None \<Rightarrow> safe_float (vget v ''epss_percentile'') 0);
          has_poc = (if cve \<noteq> [] then poc_has_poc (check_poc_availability f (VStr cve))
                     else is_true (vget v ''has_poc''));
          kev_entry = (if cve \<noteq> [] then kev_data f cve else None);
          kev = (kev_entry \<noteq> None);
          known_ransom = (case kev_entry of Some k \<Rightarrow> known_ransomware k | None \<Rightarrow> False);
          recent = (case kev_entry of Some k \<Rightarrow> kev_recent k | None \<Rightarrow> False);
          th0 = 100 * (0.65 * epss_score + 0.35 * (epss_percentile / 100));
          th1 = (if has_poc then th0 + 8 else th0);
          th2 = (if kev then (if recent then max th1 90 + 5 else max th1 90) else th1);
          th3 = (if known_ransom then 100 else th2);
          threat = max 0 (min 100 th3);
          tier = (if kev \<or> known_ransom then T_critical
                  else if threat \<ge> 80 then T_high
                  else if threat \<ge> 50 \<or> has_poc then T_med
                  else if threat \<ge> 20 then T_low
                  else T_none)
      in \<lparr> t_score = threat, t_tier = tier, t_has_poc = has_poc, t_has_kev = kev,
           t_epss_score = epss_score, t_epss_percentile = epss_percentile \<rparr>)"

definition age_caps :: "tier \<Rightarrow> real" where
  "age_caps t = (case t of T_none \<Rightarrow> 10 | T_low \<Rightarrow> 20 | T_med \<Rightarrow> 25 | T_high \<Rightarrow> 30 | T_critical \<Rightarrow> 35)"

definition age_mult :: "tier \<Rightarrow> real" where
  "age_mult t = (case t of T_none \<Rightarrow> 0.5 | T_low \<Rightarrow> 0.7 | T_med \<Rightarrow> 0.9 | T_high \<Rightarrow> 1.0 | T_critical \<Rightarrow> 1.1)"

text \<open>\<^verbatim>\<open>int(base * mult)\<close> truncates; the product is never negative, so it is the floor.\<close>

definition age_urgency :: "vuln \<Rightarrow> tier \<Rightarrow> real" where
  "age_urgency v t =
     (case safe_float_opt (vget v ''sla_age'') of
        None \<Rightarrow> 0
      | Some days \<Rightarrow>
         (let base = (if days > 365 * 2 then 20 else if days > 365 then 18
                      else if days > 180 then 16 else if days > 90 then 12
                      else if days > 30 then 8 else if days > 7 then 4 else (0::real));
              capped = min (age_caps t) (of_int \<lfloor>base * age_mult t\<rfloor>)
          in if days \<ge> 730 \<and> t \<in> {T_none, T_low} then max 0 (capped - 8) else capped))"

definition sla_component :: "vuln \<Rightarrow> real" where
  "sla_component v =
     (if is_true (vget v ''violates_sla'') then 100
      else (case safe_float_opt (vget v ''sla_days_remaining'') of
              None \<Rightarrow> 25
            | Some sla_days \<Rightarrow>
                if sla_days < 0 then 100 else if sla_days \<le> 3 then 95
                else if sla_days \<le> 7 then 90 else if sla_days \<le> 14 then 80
                else if sla_days \<le> 30 then 70 else if sla_days \<le> 60 then 50
                else if sla_days \<le> 90 then 30 else 20))"

definition exploit_factor_from_q1 :: "real option \<Rightarrow> tier \<Rightarrow> bool \<Rightarrow> bool \<Rightarrow> real" where
  "exploit_factor_from_q1 q1o t has_poc has_kev =
     (case q1o of
        None \<Rightarrow> 1.0
      | Some q1 \<Rightarrow>
          if (\<not> has_poc \<and> \<not> has_kev) \<and> t \<in> {T_none, T_low} then
            (if q1 < 25 then 0.75 else if q1 < 50 then 0.90 else 1.00)
          else if q1 \<ge> 85 then 1.07
          else if q1 \<ge> 70 then 1.04
          else if q1 < 30 then 0.95
          else 1.00)"

definition impact_factor_from_q3 :: "real option \<Rightarrow> bool \<Rightarrow> bool \<Rightarrow> real" where
  "impact_factor_from_q3 q3o has_kev sla_urgent =
     (case q3o of
        None \<Rightarrow> 1.0
      | Some q3 \<Rightarrow>
          if has_kev \<or> sla_urgent then 1.0
          else if q3 < 30 then 0.80
          else if q3 < 50 then 0.92
          else if q3 < 70 then 1.00
          else if q3 \<ge> 85 then 1.06
          else 1.02)"

definition fixability_nudge_from_q4 :: "real option \<Rightarrow> real" where
  "fixability_nudge_from_q4 q4o =
     (case q4o of
        None \<Rightarrow> 1.0
      | Some q4 \<Rightarrow> if q4 \<ge> 80 then 1.03 else if q4 \<le> 20 then 0.97 else 1.00)"

definition q5_sla_urgent :: "vuln \<Rightarrow> bool" where
  "q5_sla_urgent v =
     (is_true (vget v ''violates_sla'') \<or> safe_float (vget v ''sla_days_remaining'') 1 < 0)"

text \<open>Steps 1 to 9 of \<^verbatim>\<open>calculate_q5_urgency\<close>: the blend before the SLA short-circuit.\<close>

definition q5_blend :: "vuln \<Rightarrow> fetcher \<Rightarrow> real" where
  "q5_blend v f =
     (let sla_u = sla_component v;
          tb = threat_block v f;
          t = t_tier tb;
          th1 = min 100 (t_score tb * exposure_factor v);
          age_u = age_urgency v t;
          th2 = th1 * exploit_factor_from_q1 (safe_float_opt (vget v ''q1_exploitability'')) t
                        (t_has_poc tb) (t_has_kev tb);
          th3 = th2 * impact_factor_from_q3 (safe_float_opt (vget v ''q3_impact''))
                        (t_has_kev tb) (q5_sla_urgent v);
          thr = min 100 (max 0 th3);
          q5a = (if t \<in> {T_none, T_low} then 0.65 * sla_u + 0.25 * thr + 0.10 * age_u
                 else if t = T_critical then 0.45 * sla_u + 0.40 * thr + 0.15 * age_u
                 else 0.50 * sla_u + 0.35 * thr + 0.15 * age_u);
          q5b = (if is_true (vget v ''verified'') then q5a * 1.04 else q5a);
          q5c = (if is_true (vget v ''dynamic_finding'') then q5b * 1.03 else q5b);
          q5d = (case safe_float_opt (vget v ''scanner_confidence'') of
                   None \<Rightarrow> q5c
                 | Some conf \<Rightarrow>
                     (let conf01 = (if conf \<le> 1 then conf else conf / 100)
                      in if conf01 < 0.5 \<and> \<not> t_has_kev tb \<and> t \<in> {T_none, T_low}
                         then q5c * 0.85 else q5c));
          q5e = q5d * fixability_nudge_from_q4 (safe_float_opt (vget v ''q4_fixability''));
          q5f = (if is_true (vget v ''risk_accepted'') then q5e * 0.30 else q5e);
          q5g = (if is_true (vget v ''is_mitigated'') then q5f * 0.50 else q5f)
      in if is_true (vget v ''false_p'') then q5g * 0.20 else q5g)"

definition calculate_q5_urgency :: "vuln \<Rightarrow> fetcher \<Rightarrow> real" where
  "calculate_q5_urgency v f =
     (let q5 = q5_blend v f;
          q5' = (if q5_sla_urgent v then max q5 100 else q5)
      in min 100 (max 0 q5'))"

section \<open>Coupling and gates (calculators.py, \<^verbatim>\<open>RiskPriorityCalculator.calculate_rpi\<close>)\<close>

text \<open>The fields of \<^verbatim>\<open>VulnerabilityMetrics\<close> that the engine writes or reads.\<close>

record VulnerabilityMetrics =
  q1_exploitability :: real
  q2_exposure :: real
  q3_impact :: real
  q4_fixability :: real
  q5_urgency :: real
  rpi_score :: real
  domain :: string
  is_runtime :: bool
  has_kev :: bool
  has_poc :: bool
  epss_score :: real
  epss_percentile :: real

text \<open>\<^verbatim>\<open>key in d\<close> for a dict with string keys: a list or a dict is unhashable (TypeError),
  any other value that is not a string is no key.\<close>

definition dict_has :: "pyval \<Rightarrow> (string \<rightharpoonup> 'a) \<Rightarrow> error + bool" where
  "dict_has k d = (case k of VList xs \<Rightarrow> Inl TypeError
                   | VDict kvs \<Rightarrow> Inl TypeError
                   | VStr s \<Rightarrow> Inr (d s \<noteq> None)
                   | _ \<Rightarrow> Inr False)"

definition dict_lookup :: "pyval \<Rightarrow> (string \<rightharpoonup> 'a) \<Rightarrow> 'a option" where
  "dict_lookup k d = (case k of VStr s \<Rightarrow> d s | _ \<Rightarrow> None)"

text \<open>\<^verbatim>\<open>val not in (None, "NaN", "")\<close>.\<close>

definition not_missing :: "pyval \<Rightarrow> bool" where
  "not_missing v = (v \<noteq> VNone \<and> v \<noteq> VStr ''NaN'' \<and> v \<noteq> VStr [])"

definition g_exploit_of :: "bool \<Rightarrow> bool \<Rightarrow> real \<Rightarrow> real" where
  "g_exploit_of kev poc e =
     (if kev then 1.20 else if poc then 1.15 else if e \<ge> 0.50 then 1.10
      else if e \<ge> 0.20 then 1.05 else 1.00)"

definition g_surface_of :: "real \<Rightarrow> real" where
  "g_surface_of q2_base = (if q2_base \<ge> 80 then 1.15 else if q2_base \<ge> 60 then 1.08 else 0.95)"

definition env_factor :: "vuln \<Rightarrow> real" where
  "env_factor v =
     (let txt = py_lower (intercalate '' '' [str_field v ''product'', str_field v ''service'',
                                             str_field v ''url'', str_field v ''title'']);
          prod_like = contains_any txt [''prod'', ''production'', ''prd''];
          dev_like = contains_any txt [''dev'', ''test'', ''stage'', ''stg'', ''homolog'', ''hml'', ''qa'']
      in if prod_like \<and> \<not> dev_like then 1.10
         else if dev_like \<and> \<not> prod_like then 0.85
         else 1.00)"

definition validation_boost :: "vuln \<Rightarrow> real" where
  "validation_boost v =
     (let b1 = (if is_true (vget v ''verified'') then 1.15 else 1.0);
          b2 = (if is_true (vget v ''dynamic_finding'') then b1 * 1.10 else b1);
          scanner_conf = vget v ''scanner_confidence''
      in if not_missing scanner_conf then
           (case py_float scanner_conf of
              Some conf_value \<Rightarrow> if conf_value < 0.5 then b2 * 0.7 else b2
            | None \<Rightarrow> b2)
         else b2)"

text \<open>Step 7: the occurrence count as read (\<open>None\<close> when the field is missing or does not
  convert), and the tiers applied to the coupled Q3.\<close>

definition rpi_occurrences :: "vuln \<Rightarrow> real option" where
  "rpi_occurrences v =
     (let nb_occurences = vget v ''nb_occurences''
      in if not_missing nb_occurences then py_float nb_occurences else None)"

definition occurrence_boost :: "vuln \<Rightarrow> real \<Rightarrow> real" where
  "occurrence_boost v q3_coupled =
     (case rpi_occurrences v of
        Some occ \<Rightarrow>
          if occ > 100 then min 100 (q3_coupled * 1.5)
          else if occ > 50 then min 100 (q3_coupled * 1.3)
          else if occ > 10 then min 100 (q3_coupled * 1.15)
          else q3_coupled
      | None \<Rightarrow> q3_coupled)"

text \<open>Step 9: the management penalties, in the order of the source.\<close>

definition apply_penalties :: "vuln \<Rightarrow> real \<Rightarrow> real" where
  "apply_penalties v rpi =
     (let r1 = (if is_true (vget v ''risk_accepted'') then rpi * 0.05 else rpi);
          r2 = (if is_true (vget v ''is_mitigated'') then r1 * 0.10 else r1)
      in if is_true (vget v ''false_p'') then r2 * 0.20 else r2)"

text \<open>Step 10: the SLA override.\<close>

definition sla_override :: "vuln \<Rightarrow> real \<Rightarrow> real" where
  "sla_override v rpi = (if is_true (vget v ''violates_sla'') then max rpi 85 else rpi)"

text \<open>The record as \<^verbatim>\<open>calculate_rpi\<close> leaves it: Q1 to Q4 and \<^verbatim>\<open>is_runtime\<close> stored for Q5.\<close>

definition with_base_scores :: "vuln \<Rightarrow> real \<Rightarrow> real \<Rightarrow> real \<Rightarrow> real \<Rightarrow> vuln" where
  "with_base_scores v q1 q2 q3 q4 =
     (let v1 = v(''q1_exploitability'' \<mapsto> VFloat q1, ''q2_exposure'' \<mapsto> VFloat q2,
                 ''q3_impact'' \<mapsto> VFloat q3, ''q4_fixability'' \<mapsto> VFloat q4)
      in v1(''is_runtime'' \<mapsto> VBool (is_runtime_dependency v1)))"

definition weight :: "ProcessingConfig \<Rightarrow> string \<Rightarrow> error + real" where
  "weight cfg k = (case map_of (weights cfg) k of None \<Rightarrow> Inl KeyError | Some w \<Rightarrow> Inr w)"

text \<open>The weighted sum of step 8; KeyError when a weight is missing from the dict.\<close>

definition weighted_sum :: "ProcessingConfig \<Rightarrow> real \<Rightarrow> real \<Rightarrow> real \<Rightarrow> real \<Rightarrow> real \<Rightarrow> error + real" where
  "weighted_sum cfg a1 a2 a3 a4 a5 =
     (case (weight cfg ''q1'', weight cfg ''q2'', weight cfg ''q3'', weight cfg ''q4'', weight cfg ''q5'') of
        (Inr w1, Inr w2, Inr w3, Inr w4, Inr w5) \<Rightarrow> Inr (w1 * a1 + w2 * a2 + w3 * a3 + w4 * a4 + w5 * a5)
      | _ \<Rightarrow> Inl KeyError)"

text \<open>The record after steps 1 and 2, given the Q2 score.\<close>

definition scored_vuln :: "fetcher \<Rightarrow> vuln \<Rightarrow> real \<Rightarrow> vuln" where
  "scored_vuln f v q2 =
     with_base_scores v (calculate_q1_exploitability v f) q2 (calculate_q3_impact v)
       (calculate_q4_fixability v)"

text \<open>The metrics object after step 7, before \<^verbatim>\<open>rpi_score\<close> is assigned (it still holds the
  dataclass default 0.0): the coupled subscores and the metadata.\<close>

definition coupled_metrics :: "fetcher \<Rightarrow> vuln \<Rightarrow> real \<Rightarrow> bool \<Rightarrow> VulnerabilityMetrics" where
  "coupled_metrics f v q2 kev =
     (let q1 = calculate_q1_exploitability v f;
          q3 = calculate_q3_impact v;
          q4 = calculate_q4_fixability v;
          v' = scored_vuln f v q2;
          q5 = calculate_q5_urgency v' f;
          cve_id = vget_default v' ''vulnerability_ids'' (VStr []);
          poc = poc_has_poc (check_poc_availability f cve_id);
          e_score = (case dict_lookup cve_id (epss_data f) of Some e \<Rightarrow> epss e | None \<Rightarrow> 0);
          e_pct = (case dict_lookup cve_id (epss_data f) of Some e \<Rightarrow> percentile e | None \<Rightarrow> 0);
          g_exploit = g_exploit_of kev poc e_score;
          g_surface = g_surface_of q2;
          f_env = env_factor v'
      in \<lparr> q1_exploitability = min 100 (q1 * g_surface),
           q2_exposure = min 100 (q2 * f_env),
           q3_impact = occurrence_boost v' (min 100 (q3 * g_exploit)),
           q4_fixability = q4,
           q5_urgency = min 100 (q5 * (0.7 + 0.3 * g_exploit) * (0.8 + 0.2 * g_surface) * f_env),
           rpi_score = 0,
           domain = classify_domain v', is_runtime = is_runtime_dependency v',
           has_kev = kev, has_poc = poc, epss_score = e_score, epss_percentile = e_pct \<rparr>)"

text \<open>Steps 8 to 10 and the final clamp, from the weighted sum.\<close>

definition final_rpi :: "vuln \<Rightarrow> real \<Rightarrow> real" where
  "final_rpi v ws = max 0 (min 100 (sla_override v (apply_penalties v (ws * validation_boost v))))"

definition calculate_rpi :: "ProcessingConfig \<Rightarrow> fetcher \<Rightarrow> vuln \<Rightarrow> error + VulnerabilityMetrics" where
  "calculate_rpi cfg f v =
     (case calculate_q2_exposure v of
        Inl e \<Rightarrow> Inl e
      | Inr q2 \<Rightarrow>
         (case dict_has (vget_default (scored_vuln f v q2) ''vulnerability_ids'' (VStr [])) (kev_data f) of
            Inl e \<Rightarrow> Inl e
          | Inr kev \<Rightarrow>
             (let m = coupled_metrics f v q2 kev
              in case weighted_sum cfg (q1_exploitability m) (q2_exposure m) (q3_impact m)
                        (q4_fixability m) (q5_urgency m) of
                   Inl e \<Rightarrow> Inl e
                 | Inr ws \<Rightarrow> Inr (m \<lparr> rpi_score := final_rpi (scored_vuln f v q2) ws \<rparr>))))"

text \<open>
  \<^verbatim>\<open>process_vulnerability_worker\<close> (prioritizer.py): a record without title, identifier
  and component name is rejected, and so is one whose scoring raises; otherwise the record
  comes back with its metrics. The result carries the dict as \<^verbatim>\<open>calculate_rpi\<close> left it,
  the metrics object, the entry \<^verbatim>\<open>rpi_score\<close> and the entry \<^verbatim>\<open>tie_breaker_key\<close>, which is
  still missing here (the empty tuple is what \<^verbatim>\<open>v.get("tie_breaker_key", ())\<close> reads then).
\<close>

record scored =
  vuln_data :: vuln
  rpi_metrics :: VulnerabilityMetrics
  rpi_score_entry :: real
  tie_breaker_key :: "pyval list"

definition has_minimal_identity :: "vuln \<Rightarrow> bool" where
  "has_minimal_identity v =
     (truthy (vget v ''title'') \<or> truthy (vget v ''vulnerability_ids'') \<or> truthy (vget v ''component_name''))"

definition process_vulnerability_worker :: "ProcessingConfig \<Rightarrow> fetcher \<Rightarrow> vuln \<Rightarrow> scored option" where
  "process_vulnerability_worker cfg f v =
     (if \<not> has_minimal_identity v then None
      else (case calculate_rpi cfg f v of
              Inl e \<Rightarrow> None
            | Inr m \<Rightarrow>
               (case calculate_q2_exposure v of
                  Inl e \<Rightarrow> None
                | Inr q2 \<Rightarrow>
                    Some \<lparr> vuln_data = (scored_vuln f v q2)(''domain'' \<mapsto> VStr (domain m)),
                           rpi_metrics = m, rpi_score_entry = rpi_score m,
                           tie_breaker_key = [] \<rparr>)))"

section \<open>Tie-breaker (calculators.py, \<^verbatim>\<open>TieBreaker.get_tie_breaker_key\<close>)\<close>

text \<open>\<^verbatim>\<open>safe_value(val, default, negate)\<close>: the default is returned as it is, a converted
  value is a float.\<close>

definition safe_value :: "pyval \<Rightarrow> pyval \<Rightarrow> bool \<Rightarrow> pyval" where
  "safe_value val dflt negate =
     (if is_blank val then dflt
      else (case py_float val of
              Some num_val \<Rightarrow> VFloat (if negate then - num_val else num_val)
            | None \<Rightarrow> dflt))"

definition safe_bool :: "pyval \<Rightarrow> int" where
  "safe_bool val = (if is_true val then 1 else 0)"

definition endpoints_count :: "vuln \<Rightarrow> int" where
  "endpoints_count v =
     (let endpoints = vget_default v ''endpoints'' (VStr [])
      in if truthy endpoints \<and> py_str endpoints \<noteq> ''NaN''
         then int (split_count (py_str endpoints) CHR '','') else 0)"

definition has_url :: "vuln \<Rightarrow> int" where
  "has_url v = (if truthy (vget v ''url'') \<and> py_str (vget v ''url'') \<noteq> ''NaN'' then 1 else 0)"

text \<open>Slot 19: \<^verbatim>\<open>vuln_data.get('unique_id_from_tool', vuln_data.get('id', ''))\<close>. The fallback
  to \<^verbatim>\<open>id\<close> is taken only when the key \<^verbatim>\<open>unique_id_from_tool\<close> is absent.\<close>

definition key_unique_id :: "vuln \<Rightarrow> pyval" where
  "key_unique_id v = vget_default v ''unique_id_from_tool'' (vget_default v ''id'' (VStr []))"

definition get_tie_breaker_key :: "vuln \<Rightarrow> VulnerabilityMetrics \<Rightarrow> pyval list" where
  "get_tie_breaker_key v m =
     [VInt (- safe_bool (vget v ''violates_sla'')),
      safe_value (vget v ''sla_days_remaining'') (VInt 999999) False,
      vget_default v ''sla_deadline'' (VStr ''9999-12-31''),
      VInt (- safe_bool (vget v ''verified'')),
      VInt (- safe_bool (vget v ''dynamic_finding'')),
      VInt (safe_bool (vget v ''false_p'')),
      VInt (safe_bool (vget v ''is_mitigated'')),
      VInt (safe_bool (vget v ''risk_accepted'')),
      safe_value (vget v ''scanner_confidence'') (VFloat 0.5) True,
      VInt (- (if has_kev m then 1 else 0)),
      safe_value (VFloat (epss_percentile m)) (VInt 0) True,
      safe_value (vget v ''nb_occurences'') (VInt 1) True,
      VInt (- endpoints_count v),
      VInt (- has_url v),
      safe_value (vget v ''cvssv3_score'') (VInt 0) True,
      VInt (- (if is_runtime m then 1 else 0)),
      safe_value (vget v ''effort_for_fixing'') (VInt 999999) False,
      VInt (- safe_bool (vget v ''has_jira_issue'')),
      key_unique_id v]"

section \<open>Python comparison and \<^verbatim>\<open>sorted\<close>\<close>

text \<open>
  \<^verbatim>\<open>==\<close> and \<^verbatim>\<open><\<close> on values. Booleans, integers and floats compare by value; strings
  compare with strings, lists with lists (by the first pair of unequal elements); dicts are
  equal when they hold equal values under the same keys, in any order, and have no order;
  every other pairing is unequal and has no order: \<^verbatim>\<open><\<close> raises TypeError. A tuple compares
  like a list.
\<close>

fun num_of :: "pyval \<Rightarrow> real option" where
  "num_of (VBool b) = Some (if b then 1 else 0)"
| "num_of (VInt i) = Some (of_int i)"
| "num_of (VFloat x) = Some x"
| "num_of v = None"

fun str_lt :: "string \<Rightarrow> string \<Rightarrow> bool" where
  "str_lt [] [] = False"
| "str_lt [] (d # ds) = True"
| "str_lt (c # cs) [] = False"
| "str_lt (c # cs) (d # ds) = (if c = d then str_lt cs ds else (of_char c :: nat) < of_char d)"

fun py_eq :: "pyval \<Rightarrow> pyval \<Rightarrow> bool" and py_eq_list :: "pyval list \<Rightarrow> pyval list \<Rightarrow> bool"
  and py_eq_items :: "(string \<times> pyval) list \<Rightarrow> (string \<times> pyval) list \<Rightarrow> bool" where
  "py_eq (VList xs) (VList ys) = py_eq_list xs ys"
| "py_eq (VDict a) (VDict b) = (length a = length b \<and> py_eq_items a b)"
| "py_eq (VStr s) (VStr t) = (s = t)"
| "py_eq VNone VNone = True"
| "py_eq a b = (case (num_of a, num_of b) of (Some x, Some y) \<Rightarrow> x = y | _ \<Rightarrow> False)"
| "py_eq_list [] [] = True"
| "py_eq_list (x # xs) (y # ys) = (py_eq x y \<and> py_eq_list xs ys)"
| "py_eq_list xs ys = False"
| "py_eq_items [] b = True"
| "py_eq_items ((k, v) # a) b =
     ((case map_of b k of None \<Rightarrow> False | Some w \<Rightarrow> py_eq v w) \<and> py_eq_items a b)"

fun py_lt :: "pyval \<Rightarrow> pyval \<Rightarrow> error + bool" and py_lt_list :: "pyval list \<Rightarrow> pyval list \<Rightarrow> error + bool" where
  "py_lt (VList xs) (VList ys) = py_lt_list xs ys"
| "py_lt (VStr s) (VStr t) = Inr (str_lt s t)"
| "py_lt a b = (case (num_of a, num_of b) of (Some x, Some y) \<Rightarrow> Inr (x < y) | _ \<Rightarrow> Inl TypeError)"
| "py_lt_list [] [] = Inr False"
| "py_lt_list [] (y # ys) = Inr True"
| "py_lt_list (x # xs) [] = Inr False"
| "py_lt_list (x # xs) (y # ys) = (if py_eq x y then py_lt_list xs ys else py_lt x y)"

text \<open>
  \<^verbatim>\<open>sorted\<close> is a stable sort that only asks \<^verbatim>\<open><\<close> of the keys. It is modelled by
  insertion from the right, which is stable; it returns what any stable sort returns when no
  comparison raises, and it raises when one of its own comparisons raises. On a list of two
  elements it makes the one comparison the library makes, the second against the first.
\<close>

fun insort_lt :: "('a \<Rightarrow> 'a \<Rightarrow> error + bool) \<Rightarrow> 'a \<Rightarrow> 'a list \<Rightarrow> error + 'a list" where
  "insort_lt lt x [] = Inr [x]"
| "insort_lt lt x (y # ys) =
     (case lt y x of
        Inl e \<Rightarrow> Inl e
      | Inr True \<Rightarrow> (case insort_lt lt x ys of Inl e \<Rightarrow> Inl e | Inr zs \<Rightarrow> Inr (y # zs))
      | Inr False \<Rightarrow> Inr (x # y # ys))"

fun py_sorted :: "('a \<Rightarrow> 'a \<Rightarrow> error + bool) \<Rightarrow> 'a list \<Rightarrow> error + 'a list" where
  "py_sorted lt [] = Inr []"
| "py_sorted lt (x # xs) =
     (case py_sorted lt xs of Inl e \<Rightarrow> Inl e | Inr ys \<Rightarrow> insort_lt lt x ys)"

text \<open>The primary sort key \<^verbatim>\<open>(-x['rpi_score'], x['tie_breaker_key'])\<close>.\<close>

definition primary_lt :: "scored \<Rightarrow> scored \<Rightarrow> error + bool" where
  "primary_lt a b =
     (if - rpi_score_entry a = - rpi_score_entry b
      then py_lt_list (tie_breaker_key a) (tie_breaker_key b)
      else Inr (- rpi_score_entry a < - rpi_score_entry b))"

section \<open>Funnel re-ranker (prioritizer.py)\<close>

subsection \<open>Small helpers\<close>

text \<open>\<^verbatim>\<open>VulnerabilityPrioritizer._safe_bool\<close>, wider than the flag test of the calculators.\<close>

definition prio_safe_bool :: "pyval \<Rightarrow> bool" where
  "prio_safe_bool val =
     (val = VBool True \<or> py_lower (py_strip (py_str val)) \<in> set [''true'', ''1'', ''yes''])"

text \<open>\<^verbatim>\<open>VulnerabilityPrioritizer._safe_float\<close>.\<close>

definition prio_safe_float :: "pyval \<Rightarrow> real \<Rightarrow> real" where
  "prio_safe_float val dflt = (case py_float val of Some x \<Rightarrow> x | None \<Rightarrow> dflt)"

text \<open>\<^verbatim>\<open>_parse_effort\<close>. The accented spelling is the UTF-8 text of the source.\<close>

definition parse_effort :: "pyval \<Rightarrow> real" where
  "parse_effort val =
     (if val = VNone then 5
      else
       (let s = py_lower (py_strip (py_str val))
        in if s \<noteq> [] \<and> list_all is_digit s then max 0 (real (digits_val s))
           else if s \<in> set [''low'', ''baixo''] then 1
           else if s \<in> set [''medium'', [CHR ''m'', CHR 0xC3, CHR 0xA9, CHR ''d'', CHR ''i'', CHR ''o''], ''medio''] then 5
           else if s \<in> set [''high'', ''alto''] then 10
           else (case parse_float s of Some x \<Rightarrow> max 0 x | None \<Rightarrow> 5)))"

subsection \<open>Cohort bucket and local TOPSIS score\<close>

definition cohort_bucket :: "scored \<Rightarrow> nat" where
  "cohort_bucket it =
     (let m = rpi_metrics it
      in if prio_safe_bool (vget (vuln_data it) ''violates_sla'') then 0
         else if has_kev m then 1
         else if has_poc m then 2
         else if epss_percentile m \<ge> 90 then 3
         else if q2_exposure m \<ge> 80 \<and> q3_impact m \<ge> 80 then 4
         else 5)"

text \<open>\<^verbatim>\<open>math.sqrt\<close>. It has no code equation: evaluation leaves it symbolic.\<close>

definition math_sqrt :: "real \<Rightarrow> real" where
  "math_sqrt x = sqrt x"

declare math_sqrt_def [code del]

definition norm_minmax :: "real \<Rightarrow> real \<Rightarrow> real \<Rightarrow> real" where
  "norm_minmax val lo hi = (if hi \<le> lo then 0.5 else (val - lo) / (hi - lo))"

text \<open>\<^verbatim>\<open>w.get(key, 0.0) or 0.0\<close>.\<close>

definition mcdm_weight :: "ProcessingConfig \<Rightarrow> string \<Rightarrow> real" where
  "mcdm_weight cfg k = (case map_of (mcdm_weights cfg) k of Some w \<Rightarrow> w | None \<Rightarrow> 0)"

definition local_topsis_score :: "ProcessingConfig \<Rightarrow> scored \<Rightarrow> real" where
  "local_topsis_score cfg it =
     (if \<not> mcdm_use_topsis cfg then 0
      else
       (let m = rpi_metrics it;
            occ = prio_safe_float (vget (vuln_data it) ''nb_occurences'') 0;
            conf0 = prio_safe_float (vget (vuln_data it) ''scanner_confidence'') 0;
            conf = (if conf0 > 1 then conf0 / 100 else conf0);
            eff = parse_effort (vget (vuln_data it) ''effort_for_fixing'');
            cap_occ = 1 + (if occ < 1000000 then occ else 1000000);
            eff_cap = max 1 eff;
            weighted =
              [mcdm_weight cfg ''q1'' * norm_minmax (q1_exploitability m) 0 100,
               mcdm_weight cfg ''q2'' * norm_minmax (q2_exposure m) 0 100,
               mcdm_weight cfg ''q3'' * norm_minmax (q3_impact m) 0 100,
               mcdm_weight cfg ''q5'' * norm_minmax (q5_urgency m) 0 100,
               mcdm_weight cfg ''epss'' * norm_minmax (epss_percentile m) 0 100,
               mcdm_weight cfg ''occ'' * norm_minmax (min occ cap_occ) 0 cap_occ,
               mcdm_weight cfg ''conf'' * norm_minmax conf 0 1,
               mcdm_weight cfg ''effort'' * (1 - norm_minmax (min eff eff_cap) 0 eff_cap)];
            d_plus = math_sqrt (sum_list (map (\<lambda>w. (1 - w)\<^sup>2) weighted));
            d_minus = math_sqrt (sum_list (map (\<lambda>w. (0 - w)\<^sup>2) weighted))
        in if d_plus + d_minus = 0 then 0 else d_minus / (d_plus + d_minus)))"

text \<open>\<^verbatim>\<open>_reorder_equal_group\<close>: a stable sort by
  \<^verbatim>\<open>(bucket, -topsis, tie_breaker_key)\<close>.\<close>

definition reorder_lt :: "ProcessingConfig \<Rightarrow> scored \<Rightarrow> scored \<Rightarrow> error + bool" where
  "reorder_lt cfg a b =
     (if cohort_bucket a \<noteq> cohort_bucket b then Inr (cohort_bucket a < cohort_bucket b)
      else if - local_topsis_score cfg a \<noteq> - local_topsis_score cfg b
      then Inr (- local_topsis_score cfg a < - local_topsis_score cfg b)
      else py_lt_list (tie_breaker_key a) (tie_breaker_key b))"

definition reorder_equal_group :: "ProcessingConfig \<Rightarrow> scored list \<Rightarrow> error + scored list" where
  "reorder_equal_group cfg block = py_sorted (reorder_lt cfg) block"

subsection \<open>\<^verbatim>\<open>_apply_funneling_if_needed\<close>\<close>

text \<open>The end of the slice \<^verbatim>\<open>xs[:k]\<close> (and the start of \<^verbatim>\<open>xs[k:]\<close>) in a list of length \<open>n\<close>:
  a negative \<open>k\<close> counts from the end.\<close>

definition slice_index :: "nat \<Rightarrow> int \<Rightarrow> nat" where
  "slice_index n k = (if k < 0 then nat (max 0 (int n + k)) else min (nat k) n)"

text \<open>\<^verbatim>\<open>round(s, 2)\<close> on reals: to the nearest hundredth, a tie going to the even one.\<close>

definition round_half_even :: "real \<Rightarrow> int" where
  "round_half_even y =
     (let fl = \<lfloor>y\<rfloor>; d = y - of_int fl
      in if d < 1 / 2 then fl else if d > 1 / 2 then fl + 1 else if even fl then fl else fl + 1)"

definition round2 :: "real \<Rightarrow> real" where
  "round2 s = of_int (round_half_even (s * 100)) / 100"

text \<open>\<^verbatim>\<open>groups.setdefault(key, []).append(idx)\<close> on a dict that keeps insertion order.\<close>

fun group_add :: "real \<Rightarrow> nat \<Rightarrow> (real \<times> nat list) list \<Rightarrow> (real \<times> nat list) list" where
  "group_add key idx [] = [(key, [idx])]"
| "group_add key idx ((k, idxs) # gs) =
     (if k = key then (k, idxs @ [idx]) # gs else (k, idxs) # group_add key idx gs)"

definition build_groups :: "scored list \<Rightarrow> (real \<times> nat list) list" where
  "build_groups head =
     foldl (\<lambda>groups (idx, v). group_add (round2 (rpi_score_entry v)) idx groups) []
       (zip [0 ..< length head] head)"

definition list_max :: "real list \<Rightarrow> real" where
  "list_max vals = foldl max (hd vals) (tl vals)"

definition list_min :: "real list \<Rightarrow> real" where
  "list_min vals = foldl min (hd vals) (tl vals)"

text \<open>The test of one group: at least \<open>thr\<close> members whose scores differ by at most \<open>eps\<close>.\<close>

definition qualifies :: "int \<Rightarrow> real \<Rightarrow> scored list \<Rightarrow> nat list \<Rightarrow> bool" where
  "qualifies thr eps head idxs =
     (int (length idxs) \<ge> thr \<and>
      (let vals = map (\<lambda>i. rpi_score_entry (head ! i)) idxs
       in list_max vals - list_min vals \<le> eps))"

text \<open>The loop over the groups: the first of the largest qualifying groups.\<close>

definition select_candidate :: "int \<Rightarrow> real \<Rightarrow> scored list \<Rightarrow> (real \<times> nat list) list \<Rightarrow> nat list option" where
  "select_candidate thr eps head groups =
     foldl (\<lambda>candidate (key, idxs).
              if qualifies thr eps head idxs \<and>
                 (case candidate of None \<Rightarrow> True | Some c \<Rightarrow> length idxs > length c)
              then Some idxs else candidate)
       None groups"

text \<open>\<^verbatim>\<open>for new_pos, old_idx in enumerate(candidate_idx_list): head[old_idx] = re_sorted[new_pos]\<close>.\<close>

definition splice_block :: "scored list \<Rightarrow> nat list \<Rightarrow> scored list \<Rightarrow> scored list" where
  "splice_block head idxs re_sorted =
     foldl (\<lambda>h (new_pos, old_idx). h[old_idx := re_sorted ! new_pos]) head
       (zip [0 ..< length idxs] idxs)"

text \<open>\<^verbatim>\<open>head = prioritized[:top_k]\<close> with \<^verbatim>\<open>top_k = min(len(prioritized), cfg.top_k_for_funnel)\<close>.\<close>

definition funnel_cut :: "ProcessingConfig \<Rightarrow> scored list \<Rightarrow> nat" where
  "funnel_cut cfg prioritized =
     slice_index (length prioritized) (min (int (length prioritized)) (top_k_for_funnel cfg))"

definition funnel_head :: "ProcessingConfig \<Rightarrow> scored list \<Rightarrow> scored list" where
  "funnel_head cfg prioritized = take (funnel_cut cfg prioritized) prioritized"

definition apply_funneling_if_needed :: "ProcessingConfig \<Rightarrow> scored list \<Rightarrow> error + scored list" where
  "apply_funneling_if_needed cfg prioritized =
     (if \<not> funnel_enabled cfg then Inr prioritized
      else if prioritized = [] then Inr prioritized
      else
       (let head = funnel_head cfg prioritized;
            groups = build_groups head
        in case select_candidate (funnel_threshold cfg) (funnel_equal_epsilon cfg) head groups of
             None \<Rightarrow> Inr prioritized
           | Some candidate_idx_list \<Rightarrow>
               if candidate_idx_list = [] then Inr prioritized
               else
                (case reorder_equal_group cfg (map (\<lambda>i. head ! i) candidate_idx_list) of
                   Inl e \<Rightarrow> Inl e
                 | Inr re_sorted \<Rightarrow>
                     Inr (splice_block head candidate_idx_list re_sorted
                          @ drop (funnel_cut cfg prioritized) prioritized))))"



section \<open>Deduplicator (prioritizer.py, \<^verbatim>\<open>_deduplicate_vulnerabilities\<close>)\<close>

text \<open>
  An element of the input list is a dict object: its address, which \<^verbatim>\<open>id()\<close> reads, and its
  fields. The same object may stand in the list more than once.
\<close>

type_synonym obj = "nat \<times> vuln"

text \<open>\<^verbatim>\<open>a or b\<close>.\<close>

definition py_or :: "pyval \<Rightarrow> pyval \<Rightarrow> pyval" where
  "py_or a b = (if truthy a then a else b)"

definition dedup_identifier :: "obj \<Rightarrow> pyval" where
  "dedup_identifier x =
     (let v = snd x;
          cve_id = py_or (vget_default v ''vulnerability_ids'' (VStr [])) (VStr []);
          hash_code = py_or (vget_default v ''hash_code'' (VStr [])) (VStr []);
          unique_id = py_or (vget_default v ''unique_id_from_tool'' (VStr [])) (VStr []);
          identifier = py_or cve_id (py_or hash_code (py_or unique_id
                         (VStr (py_str (vget_default v ''id'' (VStr []))))))
      in if \<not> truthy identifier then VStr (str_nat (fst x)) else identifier)"

text \<open>
  A dict key. Python hashes numbers by value (\<^verbatim>\<open>1\<close>, \<^verbatim>\<open>1.0\<close> and \<^verbatim>\<open>True\<close> are one key);
  a list and a dict are unhashable: \<open>None\<close> stands for the TypeError.
\<close>

datatype hkey = KNone | KNum real | KStr string

fun hash_key :: "pyval \<Rightarrow> hkey option" where
  "hash_key VNone = Some KNone"
| "hash_key (VBool b) = Some (KNum (if b then 1 else 0))"
| "hash_key (VInt i) = Some (KNum (of_int i))"
| "hash_key (VFloat x) = Some (KNum x)"
| "hash_key (VStr s) = Some (KStr s)"
| "hash_key (VList xs) = None"
| "hash_key (VDict kvs) = None"

definition dedup_key :: "obj \<Rightarrow> hkey option" where
  "dedup_key x = hash_key (dedup_identifier x)"

text \<open>The first loop: \<open>unique_map\<close> keeps its insertion order, \<open>counts\<close> is only looked up.\<close>

fun dedup_loop :: "obj list \<Rightarrow> (hkey \<times> obj) list \<Rightarrow> (hkey \<rightharpoonup> nat)
                    \<Rightarrow> error + ((hkey \<times> obj) list \<times> (hkey \<rightharpoonup> nat))" where
  "dedup_loop [] unique_map counts = Inr (unique_map, counts)"
| "dedup_loop (x # xs) unique_map counts =
     (case dedup_key x of
        None \<Rightarrow> Inl TypeError
      | Some k \<Rightarrow>
          dedup_loop xs
            (if k \<in> set (map fst unique_map) then unique_map else unique_map @ [(k, x)])
            (counts(k \<mapsto> (case counts k of None \<Rightarrow> 0 | Some n \<Rightarrow> n) + 1)))"

text \<open>The second loop writes the count into the retained object.\<close>

definition set_occurrences :: "(hkey \<rightharpoonup> nat) \<Rightarrow> hkey \<times> obj \<Rightarrow> obj" where
  "set_occurrences counts e =
     (let nb_occ = (case counts (fst e) of None \<Rightarrow> 1 | Some n \<Rightarrow> n)
      in (fst (snd e), (snd (snd e))(''nb_occurences'' \<mapsto> VInt (int nb_occ))))"

definition deduplicate_vulnerabilities :: "obj list \<Rightarrow> error + obj list" where
  "deduplicate_vulnerabilities vuln_list =
     (case dedup_loop vuln_list [] Map.empty of
        Inl e \<Rightarrow> Inl e
      | Inr (unique_map, counts) \<Rightarrow> Inr (map (set_occurrences counts) unique_map))"

text \<open>
  Two functions to state what the loops compute: the first occurrence of every identity not
  seen before, in list order, and the number of records with a given key.
\<close>

primrec firsts_unseen :: "hkey list \<Rightarrow> obj list \<Rightarrow> obj list" where
  "firsts_unseen seen [] = []"
| "firsts_unseen seen (x # xs) =
     (if the (dedup_key x) \<in> set seen then firsts_unseen seen xs
      else x # firsts_unseen (seen @ [the (dedup_key x)]) xs)"

definition occurrences_of :: "hkey \<Rightarrow> obj list \<Rightarrow> nat" where
  "occurrences_of k xs = length (filter (\<lambda>z. dedup_key z = Some k) xs)"

section \<open>The pipeline (prioritizer.py, \<^verbatim>\<open>VulnerabilityPrioritizer\<close>)\<close>

text \<open>
  \<^verbatim>\<open>__init__\<close> keeps the configuration it is given, or the default one, fills in the funnel
  fields (which the record type always has) and builds the fetcher and the calculator. It
  makes no call to \<^verbatim>\<open>validate\<close>, and no other place of the repository does. The result is
  the configuration the prioritizer then works with.
\<close>

definition prioritizer_init :: "ProcessingConfig option \<Rightarrow> error + ProcessingConfig" where
  "prioritizer_init config = Inr (case config of None \<Rightarrow> default_config | Some c \<Rightarrow> c)"

text \<open>After a worker returns: \<^verbatim>\<open>vuln['tie_breaker_key'] = get_tie_breaker_key(vuln, metrics)\<close>.\<close>

definition attach_key :: "scored \<Rightarrow> scored" where
  "attach_key it = it \<lparr> tie_breaker_key := get_tie_breaker_key (vuln_data it) (rpi_metrics it) \<rparr>"

text \<open>The results list, in the order in which the workers complete; rejected records are
  counted as errors and left out.\<close>

definition collect_results :: "ProcessingConfig \<Rightarrow> fetcher \<Rightarrow> obj list \<Rightarrow> scored list" where
  "collect_results cfg f completed =
     map attach_key (List.map_filter (\<lambda>x. process_vulnerability_worker cfg f (snd x)) completed)"

text \<open>Steps 4 and 5: sort, funnel, and the report of the top record, whose line
  \<^verbatim>\<open>top_vuln.get('title', 'N/A')[:70]\<close> slices the title.\<close>

definition rank_results :: "ProcessingConfig \<Rightarrow> scored list \<Rightarrow> error + scored list" where
  "rank_results cfg results =
     (if results = [] then Inr []
      else (case py_sorted primary_lt results of
              Inl e \<Rightarrow> Inl e
            | Inr sorted_results \<Rightarrow>
               (case apply_funneling_if_needed cfg sorted_results of
                  Inl e \<Rightarrow> Inl e
                | Inr final \<Rightarrow>
                    if sliceable (vget_default (vuln_data (hd final)) ''title'' (VStr ''N/A''))
                    then Inr final else Inl TypeError)))"

text \<open>
  \<^verbatim>\<open>process_vulnerabilities\<close>, with the signal caches \<open>f\<close> as they stand after the prefetch of
  step 2. The pool hands the results back in completion order (\<^verbatim>\<open>as_completed\<close>): \<open>order\<close>
  is that order, a rearrangement of the unique records. An empty list of unique records makes
  \<^verbatim>\<open>ProcessPoolExecutor(max_workers=0)\<close> raise ValueError.
\<close>

definition process_vulnerabilities ::
  "ProcessingConfig \<Rightarrow> fetcher \<Rightarrow> (obj list \<Rightarrow> obj list) \<Rightarrow> obj list \<Rightarrow> error + scored list" where
  "process_vulnerabilities cfg f order vuln_list =
     (case deduplicate_vulnerabilities vuln_list of
        Inl e \<Rightarrow> Inl e
      | Inr unique_vulns \<Rightarrow>
          if unique_vulns = [] then Inl ValueError
          else rank_results cfg (collect_results cfg f (order unique_vulns)))"

section \<open>Example inputs\<close>

definition no_refs :: nvd_refs where
  "no_refs = \<lparr> has_exploit_ref = False, has_exploitdb = False, has_metasploit = False,
               has_nuclei = False \<rparr>"

text \<open>A signal cache whose one EPSS entry has score 0 and percentile 99.\<close>

definition fetcher_zero_epss :: fetcher where
  "fetcher_zero_epss =
     \<lparr> kev_data = Map.empty,
       epss_data = [''CVE-2021-44228'' \<mapsto> \<lparr> epss = 0, percentile = 99 \<rparr>],
       nvd_references = (\<lambda>c. no_refs) \<rparr>"

definition vuln_log4j :: vuln where
  "vuln_log4j = [''vulnerability_ids'' \<mapsto> VStr ''CVE-2021-44228'', ''title'' \<mapsto> VStr ''log4j'']"

text \<open>A record that violates its SLA and whose risk was accepted, and its metrics.\<close>

definition vuln_sla_accepted :: vuln where
  "vuln_sla_accepted =
     [''title'' \<mapsto> VStr ''x'', ''violates_sla'' \<mapsto> VBool True, ''risk_accepted'' \<mapsto> VBool True]"

definition metrics_sla_accepted :: VulnerabilityMetrics where
  "metrics_sla_accepted =
     \<lparr> q1_exploitability = 18.05, q2_exposure = 40, q3_impact = 50, q4_fixability = 70,
       q5_urgency = 99, rpi_score = 85, domain = ''general'', is_runtime = True,
       has_kev = False, has_poc = False, epss_score = 0, epss_percentile = 0 \<rparr>"

text \<open>The metrics of \<open>vuln_log4j\<close> under \<open>fetcher_zero_epss\<close>.\<close>

definition metrics_log4j :: VulnerabilityMetrics where
  "metrics_log4j =
     \<lparr> q1_exploitability = 18.05, q2_exposure = 40, q3_impact = 50, q4_fixability = 70,
       q5_urgency = 21.876215625, rpi_score = 36.19643234375, domain = ''general'',
       is_runtime = True, has_kev = False, has_poc = False, epss_score = 0, epss_percentile = 99 \<rparr>"

text \<open>A record in the KEV catalogue with an Exploit-DB reference, 60 occurrences and a
  production service, and its metrics.\<close>

definition fetcher_kev :: fetcher where
  "fetcher_kev =
     \<lparr> kev_data = [''CVE-2021-44228'' \<mapsto> \<lparr> known_ransomware = False, kev_recent = False \<rparr>],
       epss_data = [''CVE-2021-44228'' \<mapsto> \<lparr> epss = 0.9, percentile = 99 \<rparr>],
       nvd_references = (\<lambda>c. no_refs \<lparr> has_exploitdb := True \<rparr>) \<rparr>"

definition vuln_kev :: vuln where
  "vuln_kev =
     [''vulnerability_ids'' \<mapsto> VStr ''CVE-2021-44228'', ''title'' \<mapsto> VStr ''log4j rce'',
      ''service'' \<mapsto> VStr ''prod-gateway'', ''cvssv3_score'' \<mapsto> VFloat 5.0,
      ''nb_occurences'' \<mapsto> VInt 60]"

definition metrics_kev :: VulnerabilityMetrics where
  "metrics_kev =
     \<lparr> q1_exploitability = 99.252, q2_exposure = 70.4, q3_impact = 100, q4_fixability = 70,
       q5_urgency = 60.71362, rpi_score = 84.962643, domain = ''general'', is_runtime = True,
       has_kev = True, has_poc = True, epss_score = 0.9, epss_percentile = 99 \<rparr>"

text \<open>Three spellings of one identifier, with a CVSS score of 5, and what the exploit gate
  reads and writes: the KEV flag, the PoC flag, the EPSS score and the coupled Q3.\<close>

definition vuln_cve_upper :: vuln where
  "vuln_cve_upper =
     [''vulnerability_ids'' \<mapsto> VStr ''CVE-2021-44228'', ''title'' \<mapsto> VStr ''log4j rce'',
      ''cvssv3_score'' \<mapsto> VFloat 5.0]"

definition vuln_cve_lower :: vuln where
  "vuln_cve_lower = vuln_cve_upper(''vulnerability_ids'' \<mapsto> VStr ''cve-2021-44228'')"

definition vuln_cve_embedded :: vuln where
  "vuln_cve_embedded = vuln_cve_upper(''vulnerability_ids'' \<mapsto> VStr ''GHSA-jfh8, CVE-2021-44228'')"

definition gate_view :: "VulnerabilityMetrics \<Rightarrow> bool \<times> bool \<times> real \<times> real" where
  "gate_view m = (has_kev m, has_poc m, epss_score m, q3_impact m)"

text \<open>Three raw records, the first and the third with one identity.\<close>

definition dedup_input :: "obj list" where
  "dedup_input =
     [(1, [''vulnerability_ids'' \<mapsto> VStr ''CVE-2021-44228'', ''title'' \<mapsto> VStr ''first'']),
      (2, [''hash_code'' \<mapsto> VStr ''h1'', ''title'' \<mapsto> VStr ''other'']),
      (3, [''vulnerability_ids'' \<mapsto> VStr ''CVE-2021-44228'', ''title'' \<mapsto> VStr ''second''])]"

text \<open>A record whose identifier field is a JSON array, and one whose identifier is a JSON
  object.\<close>

definition dedup_list_id :: "obj list" where
  "dedup_list_id =
     [(1, [''vulnerability_ids'' \<mapsto> VList [VStr ''CVE-2021-44228''], ''title'' \<mapsto> VStr ''first''])]"

definition dedup_dict_id :: "obj list" where
  "dedup_dict_id =
     [(1, [''vulnerability_ids'' \<mapsto> VDict [(''cve'', VStr ''CVE-2021-44228'')],
           ''title'' \<mapsto> VStr ''first''])]"

definition summary :: "obj \<Rightarrow> nat \<times> pyval \<times> pyval" where
  "summary y = (fst y, vget (snd y) ''title'', vget (snd y) ''nb_occurences'')"

text \<open>The scenario of the database record with 150 occurrences, submitted twice.\<close>

definition vuln_db :: vuln where
  "vuln_db =
     [''hash_code'' \<mapsto> VStr ''abc123'', ''title'' \<mapsto> VStr ''SQL driver flaw'',
      ''component_name'' \<mapsto> VStr ''mysql'', ''cvssv3_score'' \<mapsto> VFloat 9.8,
      ''nb_occurences'' \<mapsto> VInt 150, ''violates_sla'' \<mapsto> VBool False]"

definition c5_input :: "obj list" where
  "c5_input = [(1, vuln_db), (2, vuln_db)]"

definition vuln_db_dedup :: vuln where
  "vuln_db_dedup = vuln_db(''nb_occurences'' \<mapsto> VInt 2)"

text \<open>A configuration whose five weights sum to 2.5.\<close>

definition config_bad_weights :: ProcessingConfig where
  "config_bad_weights =
     default_config \<lparr> weights := [(''q1'', 0.5), (''q2'', 0.5), (''q3'', 0.5), (''q4'', 0.5), (''q5'', 0.5)] \<rparr>"


definition item_title :: "scored \<Rightarrow> pyval" where
  "item_title it = vget (vuln_data it) ''title''"



text \<open>Two findings that differ in title, hash and \<^verbatim>\<open>id\<close>, with \<^verbatim>\<open>unique_id_from_tool\<close>
  present and null, as a scanner without tool ids exports them.\<close>

definition tied_records :: "obj list" where
  "tied_records =
     [(1, [''title'' \<mapsto> VStr ''a'', ''hash_code'' \<mapsto> VStr ''h1'', ''id'' \<mapsto> VInt 1,
           ''unique_id_from_tool'' \<mapsto> VNone]),
      (2, [''title'' \<mapsto> VStr ''b'', ''hash_code'' \<mapsto> VStr ''h2'', ''id'' \<mapsto> VInt 2,
           ''unique_id_from_tool'' \<mapsto> VNone])]"

text \<open>Two findings with distinct tool ids, one with a null SLA deadline and one with a date.\<close>

definition mixed_deadline_records :: "obj list" where
  "mixed_deadline_records =
     [(1, [''title'' \<mapsto> VStr ''a'', ''unique_id_from_tool'' \<mapsto> VStr ''u1'',
           ''sla_deadline'' \<mapsto> VNone]),
      (2, [''title'' \<mapsto> VStr ''b'', ''unique_id_from_tool'' \<mapsto> VStr ''u2'',
           ''sla_deadline'' \<mapsto> VStr ''2025-01-01''])]"

definition no_signals :: fetcher where
  "no_signals = \<lparr> kev_data = Map.empty, epss_data = Map.empty, nvd_references = (\<lambda>c. no_refs) \<rparr>"


section \<open>Q1: the EPSS bonus\<close>

text \<open>
  C10. When the EPSS score of the record's CVE is exactly 0 (or the CVE has no EPSS entry),
  Q1 is \<open>min(100, 0.5 * poc_maturity + 0.3 * env_fit + 0.2 * class_weight)\<close>: the bonus
  \<open>20 * score + 0.1 * percentile\<close> is added only for a strictly positive score, so the
  percentile alone contributes nothing.
\<close>

theorem q1_no_bonus_when_epss_score_zero:
  assumes "epss (q1_epss_info v f) = 0"
  shows "calculate_q1_exploitability v f =
           min 100 (0.5 * poc_maturity (check_poc_availability f
                            (VStr (extract_cve_id (vget v ''vulnerability_ids''))))
                    + 0.3 * q1_env_fit v + 0.2 * q1_class_weight v)"
  using assms by (simp add: calculate_q1_exploitability_def q1_base_def Let_def)

theorem q1_no_bonus_witness:
  "epss (q1_epss_info vuln_log4j fetcher_zero_epss) = 0
   \<and> percentile (q1_epss_info vuln_log4j fetcher_zero_epss) = 99
   \<and> calculate_q1_exploitability vuln_log4j fetcher_zero_epss = 19"
proof -
  have s: "epss (q1_epss_info vuln_log4j fetcher_zero_epss) = 0"
    by code_simp
  have p: "percentile (q1_epss_info vuln_log4j fetcher_zero_epss) = 99"
    by code_simp
  have r: "min 100 (0.5 * poc_maturity (check_poc_availability fetcher_zero_epss
                          (VStr (extract_cve_id (vget vuln_log4j ''vulnerability_ids''))))
                    + 0.3 * q1_env_fit vuln_log4j + 0.2 * q1_class_weight vuln_log4j) = (19::real)"
    by code_simp
  show ?thesis
    using q1_no_bonus_when_epss_score_zero [OF s] s p r by simp
qed

section \<open>The coupling engine\<close>

subsection \<open>What scoring leaves untouched\<close>

lemma with_base_scores_other:
  "k \<notin> {''q1_exploitability'', ''q2_exposure'', ''q3_impact'', ''q4_fixability'', ''is_runtime''}
   \<Longrightarrow> with_base_scores v a b c d k = v k"
  by (simp add: with_base_scores_def Let_def)

lemma scored_vuln_other:
  "k \<notin> {''q1_exploitability'', ''q2_exposure'', ''q3_impact'', ''q4_fixability'', ''is_runtime''}
   \<Longrightarrow> scored_vuln f v q2 k = v k"
  by (simp add: scored_vuln_def with_base_scores_other)

lemma vget_scored_vuln:
  "k \<notin> {''q1_exploitability'', ''q2_exposure'', ''q3_impact'', ''q4_fixability'', ''is_runtime''}
   \<Longrightarrow> vget (scored_vuln f v q2) k = vget v k"
  by (simp add: vget_def scored_vuln_other)

lemma vget_default_scored_vuln:
  "k \<notin> {''q1_exploitability'', ''q2_exposure'', ''q3_impact'', ''q4_fixability'', ''is_runtime''}
   \<Longrightarrow> vget_default (scored_vuln f v q2) k d = vget_default v k d"
  by (simp add: vget_default_def scored_vuln_other)

lemma str_field_scored_vuln:
  "k \<notin> {''q1_exploitability'', ''q2_exposure'', ''q3_impact'', ''q4_fixability'', ''is_runtime''}
   \<Longrightarrow> str_field (scored_vuln f v q2) k = str_field v k"
  by (simp add: str_field_def vget_default_scored_vuln)

lemma env_factor_scored_vuln: "env_factor (scored_vuln f v q2) = env_factor v"
  by (simp add: env_factor_def str_field_scored_vuln)

lemma rpi_occurrences_scored_vuln: "rpi_occurrences (scored_vuln f v q2) = rpi_occurrences v"
  by (simp add: rpi_occurrences_def vget_scored_vuln)

lemma sla_flag_scored_vuln:
  "is_true (vget (scored_vuln f v q2) ''violates_sla'') = is_true (vget v ''violates_sla'')"
  by (simp add: vget_scored_vuln)

lemma calculate_rpi_InrD:
  assumes "calculate_rpi cfg f v = Inr m"
  obtains q2 kev ws where
    "calculate_q2_exposure v = Inr q2"
    "dict_has (vget_default v ''vulnerability_ids'' (VStr [])) (kev_data f) = Inr kev"
    "m = (coupled_metrics f v q2 kev) \<lparr> rpi_score := final_rpi (scored_vuln f v q2) ws \<rparr>"
  using assms
  by (auto simp: calculate_rpi_def Let_def vget_default_scored_vuln split: sum.splits)

lemma final_rpi_range: "0 \<le> final_rpi v ws \<and> final_rpi v ws \<le> 100"
  by (simp add: final_rpi_def)

lemma final_rpi_sla: "is_true (vget v ''violates_sla'') \<Longrightarrow> 85 \<le> final_rpi v ws"
  by (simp add: final_rpi_def sla_override_def)


subsection \<open>Ranges of the base scores\<close>


lemma check_poc_maturity_range:
  "0 \<le> poc_maturity (check_poc_availability f c) \<and> poc_maturity (check_poc_availability f c) \<le> 100"
  by (simp add: check_poc_availability_def Let_def split: option.splits)

lemma q1_env_fit_nonneg: "0 \<le> q1_env_fit v"
  by (simp add: q1_env_fit_def Let_def)

lemma class_weight_of_nonneg: "0 \<le> class_weight_of ids"
  by (simp add: class_weight_of_def Let_def)

lemma q1_base_nonneg: "0 \<le> q1_base v f"
  using check_poc_maturity_range [of f "VStr (extract_cve_id (vget v ''vulnerability_ids''))"]
    q1_env_fit_nonneg [of v] class_weight_of_nonneg [of "digit_runs (str_field v ''cwe'')"]
  by (simp add: q1_base_def Let_def q1_class_weight_def)

lemma q1_epss_info_range:
  assumes "epss_in_range f"
  shows "0 \<le> epss (q1_epss_info v f) \<and> 0 \<le> percentile (q1_epss_info v f)"
  using assms by (auto simp: epss_in_range_def q1_epss_info_def split: option.splits)

lemma q1_range:
  assumes "epss_in_range f"
  shows "0 \<le> calculate_q1_exploitability v f \<and> calculate_q1_exploitability v f \<le> 100"
  using q1_base_nonneg [of v f] q1_epss_info_range [OF assms, of v]
  by (auto simp: calculate_q1_exploitability_def Let_def)

lemma q2_range: "calculate_q2_exposure v = Inr q2 \<Longrightarrow> 0 \<le> q2 \<and> q2 \<le> 100"
  by (auto simp: calculate_q2_exposure_def Let_def split: if_splits)

lemma q3_range: "0 \<le> calculate_q3_impact v \<and> calculate_q3_impact v \<le> 100"
  by (simp add: calculate_q3_impact_def Let_def)

lemma q4_range: "0 \<le> calculate_q4_fixability v \<and> calculate_q4_fixability v \<le> 100"
  by (simp add: calculate_q4_fixability_def)

lemma q5_range: "0 \<le> calculate_q5_urgency v f \<and> calculate_q5_urgency v f \<le> 100"
  by (simp add: calculate_q5_urgency_def Let_def)

lemma g_exploit_pos: "0 < g_exploit_of k p e"
  by (simp add: g_exploit_of_def)

lemma g_surface_pos: "0 < g_surface_of q"
  by (simp add: g_surface_of_def)

lemma env_factor_pos: "0 < env_factor v"
  by (simp add: env_factor_def Let_def)

lemma occurrence_boost_range:
  "0 \<le> x \<Longrightarrow> x \<le> 100 \<Longrightarrow> 0 \<le> occurrence_boost v x \<and> occurrence_boost v x \<le> 100"
  by (auto simp: occurrence_boost_def split: option.splits)

lemma coupled_metrics_range:
  assumes "epss_in_range f" and "0 \<le> q2" and "q2 \<le> 100"
  shows "0 \<le> q1_exploitability (coupled_metrics f v q2 kev) \<and> q1_exploitability (coupled_metrics f v q2 kev) \<le> 100
       \<and> 0 \<le> q2_exposure (coupled_metrics f v q2 kev) \<and> q2_exposure (coupled_metrics f v q2 kev) \<le> 100
       \<and> 0 \<le> q3_impact (coupled_metrics f v q2 kev) \<and> q3_impact (coupled_metrics f v q2 kev) \<le> 100
       \<and> 0 \<le> q4_fixability (coupled_metrics f v q2 kev) \<and> q4_fixability (coupled_metrics f v q2 kev) \<le> 100
       \<and> 0 \<le> q5_urgency (coupled_metrics f v q2 kev) \<and> q5_urgency (coupled_metrics f v q2 kev) \<le> 100"
proof -
  let ?v' = "scored_vuln f v q2"
  let ?ge = "g_exploit_of kev (poc_has_poc (check_poc_availability f (vget_default ?v' ''vulnerability_ids'' (VStr []))))
               (case dict_lookup (vget_default ?v' ''vulnerability_ids'' (VStr [])) (epss_data f) of
                  Some e \<Rightarrow> epss e | None \<Rightarrow> 0)"
  have q1: "0 \<le> calculate_q1_exploitability v f" using q1_range [OF assms(1)] by simp
  have q3: "0 \<le> calculate_q3_impact v" using q3_range by simp
  have q5: "0 \<le> calculate_q5_urgency ?v' f" using q5_range by simp
  have ge: "0 < ?ge" by (rule g_exploit_pos)
  have gs: "0 < g_surface_of q2" by (rule g_surface_pos)
  have fe: "0 < env_factor ?v'" by (rule env_factor_pos)
  have a1: "0 \<le> calculate_q1_exploitability v f * g_surface_of q2"
    using q1 gs by simp
  have a2: "0 \<le> q2 * env_factor ?v'"
    using assms(2) fe by simp
  have a3: "0 \<le> min 100 (calculate_q3_impact v * ?ge) \<and> min 100 (calculate_q3_impact v * ?ge) \<le> 100"
    using q3 ge by simp
  have a5: "0 \<le> calculate_q5_urgency ?v' f * (0.7 + 0.3 * ?ge) * (0.8 + 0.2 * g_surface_of q2) * env_factor ?v'"
    using q5 ge gs fe by (intro mult_nonneg_nonneg) auto
  show ?thesis
    using a1 a2 occurrence_boost_range [OF conjunct1 [OF a3] conjunct2 [OF a3], of ?v'] a5 q4_range [of v]
    by (simp add: coupled_metrics_def Let_def)
qed


subsection \<open>SLA override\<close>

text \<open>
  C1. A record whose \<^verbatim>\<open>violates_sla\<close> flag is true (the boolean, or the text \<^verbatim>\<open>true\<close> in
  any case) ends with an RPI of at least 85 whenever \<^verbatim>\<open>calculate_rpi\<close> returns: the
  override \<open>max(rpi, 85)\<close> comes after the management penalties, so it also holds for a record
  with \<^verbatim>\<open>risk_accepted\<close>, and for any subscores.
\<close>

theorem sla_violation_forces_rpi_85:
  assumes "is_true (vget v ''violates_sla'')" and "calculate_rpi cfg f v = Inr m"
  shows "85 \<le> rpi_score m"
proof -
  from assms(2) obtain q2 kev ws where
    m: "m = (coupled_metrics f v q2 kev) \<lparr> rpi_score := final_rpi (scored_vuln f v q2) ws \<rparr>"
    by (rule calculate_rpi_InrD)
  have "is_true (vget (scored_vuln f v q2) ''violates_sla'')"
    using assms(1) by (simp add: sla_flag_scored_vuln)
  then show ?thesis
    by (simp add: m final_rpi_sla)
qed



theorem sla_violation_forces_rpi_85_witness:
  "is_true (vget vuln_sla_accepted ''violates_sla'')
   \<and> is_true (vget vuln_sla_accepted ''risk_accepted'')
   \<and> calculate_rpi default_config fetcher_zero_epss vuln_sla_accepted = Inr metrics_sla_accepted
   \<and> apply_penalties vuln_sla_accepted 47.765 = 2.38825
   \<and> 85 \<le> rpi_score metrics_sla_accepted"
proof -
  have a: "is_true (vget vuln_sla_accepted ''violates_sla'')"
    by code_simp
  have b: "is_true (vget vuln_sla_accepted ''risk_accepted'')"
    by code_simp
  have c: "calculate_rpi default_config fetcher_zero_epss vuln_sla_accepted = Inr metrics_sla_accepted"
    by code_simp
  have d: "apply_penalties vuln_sla_accepted 47.765 = 2.38825"
    by code_simp
  show ?thesis
    using sla_violation_forces_rpi_85 [OF a c] a b c d by simp
qed

subsection \<open>Ranges\<close>

text \<open>
  C2. Whenever \<^verbatim>\<open>calculate_rpi\<close> returns metrics, the five coupled subscores it stores and
  the final \<^verbatim>\<open>rpi_score\<close> lie in \<open>[0, 100]\<close>, for every record and every configuration,
  given EPSS signals in the provider's ranges. (Q1 has no lower clamp of its own: it is a sum
  of non-negative terms only when the EPSS percentile is not negative.)
\<close>

theorem subscores_and_rpi_in_range:
  assumes "epss_in_range f" and "calculate_rpi cfg f v = Inr m"
  shows "0 \<le> q1_exploitability m \<and> q1_exploitability m \<le> 100
       \<and> 0 \<le> q2_exposure m \<and> q2_exposure m \<le> 100
       \<and> 0 \<le> q3_impact m \<and> q3_impact m \<le> 100
       \<and> 0 \<le> q4_fixability m \<and> q4_fixability m \<le> 100
       \<and> 0 \<le> q5_urgency m \<and> q5_urgency m \<le> 100
       \<and> 0 \<le> rpi_score m \<and> rpi_score m \<le> 100"
proof -
  from assms(2) obtain q2 kev ws where
    q2: "calculate_q2_exposure v = Inr q2" and
    m: "m = (coupled_metrics f v q2 kev) \<lparr> rpi_score := final_rpi (scored_vuln f v q2) ws \<rparr>"
    by (rule calculate_rpi_InrD)
  have r: "0 \<le> q2" "q2 \<le> 100" using q2_range [OF q2] by simp_all
  show ?thesis
    using coupled_metrics_range [OF assms(1) r, of v kev] final_rpi_range [of "scored_vuln f v q2" ws]
    by (simp add: m)
qed


theorem subscores_and_rpi_in_range_witness:
  "epss_in_range fetcher_zero_epss
   \<and> calculate_rpi default_config fetcher_zero_epss vuln_log4j = Inr metrics_log4j
   \<and> 0 \<le> q1_exploitability metrics_log4j \<and> q1_exploitability metrics_log4j \<le> 100
   \<and> 0 \<le> q5_urgency metrics_log4j \<and> q5_urgency metrics_log4j \<le> 100
   \<and> 0 \<le> rpi_score metrics_log4j \<and> rpi_score metrics_log4j \<le> 100"
proof -
  have a: "epss_in_range fetcher_zero_epss"
    by (auto simp: epss_in_range_def fetcher_zero_epss_def split: if_splits)
  have c: "calculate_rpi default_config fetcher_zero_epss vuln_log4j = Inr metrics_log4j"
    by code_simp
  show ?thesis
    using subscores_and_rpi_in_range [OF a c] a c by simp
qed

subsection \<open>The coupling formulas\<close>

lemma coupled_metrics_fields:
  "has_kev (coupled_metrics f v q2 kev) = kev"
  "has_poc (coupled_metrics f v q2 kev) = poc_has_poc (check_poc_availability f (vget_default v ''vulnerability_ids'' (VStr [])))"
  "epss_score (coupled_metrics f v q2 kev) =
     (case dict_lookup (vget_default v ''vulnerability_ids'' (VStr [])) (epss_data f) of
        Some e \<Rightarrow> epss e | None \<Rightarrow> 0)"
  "q4_fixability (coupled_metrics f v q2 kev) = calculate_q4_fixability v"
  by (simp_all add: coupled_metrics_def Let_def vget_default_scored_vuln)

lemma coupled_metrics_q1:
  "q1_exploitability (coupled_metrics f v q2 kev) = min 100 (calculate_q1_exploitability v f * g_surface_of q2)"
  by (simp add: coupled_metrics_def Let_def)

lemma coupled_metrics_q2:
  "q2_exposure (coupled_metrics f v q2 kev) = min 100 (q2 * env_factor v)"
  by (simp add: coupled_metrics_def Let_def env_factor_scored_vuln)

lemma coupled_metrics_q3:
  "q3_impact (coupled_metrics f v q2 kev) =
     occurrence_boost v (min 100 (calculate_q3_impact v *
        g_exploit_of kev (has_poc (coupled_metrics f v q2 kev)) (epss_score (coupled_metrics f v q2 kev))))"
  by (simp add: coupled_metrics_def Let_def occurrence_boost_def rpi_occurrences_scored_vuln)

lemma coupled_metrics_q5:
  "q5_urgency (coupled_metrics f v q2 kev) =
     min 100 (calculate_q5_urgency (scored_vuln f v q2) f
        * (0.7 + 0.3 * g_exploit_of kev (has_poc (coupled_metrics f v q2 kev)) (epss_score (coupled_metrics f v q2 kev)))
        * (0.8 + 0.2 * g_surface_of q2) * env_factor v)"
  by (simp add: coupled_metrics_def Let_def env_factor_scored_vuln)

text \<open>
  What the coupling stage computes. With Q1 to Q5 the base scores, the metrics
  \<^verbatim>\<open>calculate_rpi\<close> returns hold
  \<open>Q1' = min(100, Q1 * g_surface)\<close>, \<open>Q2' = min(100, Q2 * f_env)\<close>,
  \<open>Q3' = min(100, Q3 * g_exploit)\<close> amplified by 1.15, 1.3 or 1.5 (and clamped to 100 again)
  when the occurrence count exceeds 10, 50 or 100, \<open>Q4' = Q4\<close> and
  \<open>Q5' = min(100, Q5 * (0.7 + 0.3 * g_exploit) * (0.8 + 0.2 * g_surface) * f_env)\<close>, where
  \<open>g_exploit\<close> is 1.20 for KEV, else 1.15 for PoC, else 1.10 for EPSS at least 0.50, else 1.05
  for EPSS at least 0.20, else 1.00. The KEV, PoC and EPSS inputs of g_exploit are the ones
  stored in the metrics, read from the caches under the record's raw identifier field.
\<close>

lemma coupling_stage_formulas:
  fixes Q1 Q2 Q3 Q4 Q5 g_exploit g_surface f_env :: real
  assumes rpi: "calculate_rpi cfg f v = Inr m"
    and Q1: "Q1 = calculate_q1_exploitability v f"
    and Q2: "calculate_q2_exposure v = Inr Q2"
    and Q3: "Q3 = calculate_q3_impact v"
    and Q4: "Q4 = calculate_q4_fixability v"
    and Q5: "Q5 = calculate_q5_urgency (with_base_scores v Q1 Q2 Q3 Q4) f"
    and ge: "g_exploit = (if has_kev m then 1.20 else if has_poc m then 1.15
                          else if epss_score m \<ge> 0.50 then 1.10
                          else if epss_score m \<ge> 0.20 then 1.05 else 1.00)"
    and gs: "g_surface = (if Q2 \<ge> 80 then 1.15 else if Q2 \<ge> 60 then 1.08 else 0.95)"
    and fe: "f_env = env_factor v"
  shows "q1_exploitability m = min 100 (Q1 * g_surface)
       \<and> q2_exposure m = min 100 (Q2 * f_env)
       \<and> q3_impact m =
           (case rpi_occurrences v of
              Some occ \<Rightarrow>
                if occ > 100 then min 100 (min 100 (Q3 * g_exploit) * 1.5)
                else if occ > 50 then min 100 (min 100 (Q3 * g_exploit) * 1.3)
                else if occ > 10 then min 100 (min 100 (Q3 * g_exploit) * 1.15)
                else min 100 (Q3 * g_exploit)
            | None \<Rightarrow> min 100 (Q3 * g_exploit))
       \<and> q4_fixability m = Q4
       \<and> q5_urgency m = min 100 (Q5 * (0.7 + 0.3 * g_exploit) * (0.8 + 0.2 * g_surface) * f_env)
       \<and> dict_has (vget_default v ''vulnerability_ids'' (VStr [])) (kev_data f) = Inr (has_kev m)
       \<and> has_poc m = poc_has_poc (check_poc_availability f (vget_default v ''vulnerability_ids'' (VStr [])))
       \<and> epss_score m = (case dict_lookup (vget_default v ''vulnerability_ids'' (VStr [])) (epss_data f) of
                           Some e \<Rightarrow> epss e | None \<Rightarrow> 0)"
proof -
  from rpi obtain q2 kev ws where
    q2: "calculate_q2_exposure v = Inr q2" and
    kev: "dict_has (vget_default v ''vulnerability_ids'' (VStr [])) (kev_data f) = Inr kev" and
    m: "m = (coupled_metrics f v q2 kev) \<lparr> rpi_score := final_rpi (scored_vuln f v q2) ws \<rparr>"
    by (rule calculate_rpi_InrD)
  have eq: "q2 = Q2" using q2 Q2 by simp
  let ?c = "coupled_metrics f v Q2 kev"
  have sv: "scored_vuln f v Q2 = with_base_scores v Q1 Q2 Q3 Q4"
    by (simp add: scored_vuln_def Q1 Q3 Q4)
  have hk: "has_kev m = kev" and hp: "has_poc m = has_poc ?c" and he: "epss_score m = epss_score ?c"
    by (simp_all add: m eq coupled_metrics_fields)
  have g: "g_exploit = g_exploit_of kev (has_poc ?c) (epss_score ?c)"
    unfolding ge hk hp he g_exploit_of_def by simp
  have s: "g_surface = g_surface_of Q2"
    unfolding gs g_surface_of_def by simp
  have f1: "q1_exploitability m = min 100 (Q1 * g_surface)"
    by (simp add: m eq coupled_metrics_q1 s Q1)
  have f2: "q2_exposure m = min 100 (Q2 * f_env)"
    by (simp add: m eq coupled_metrics_q2 fe)
  have f3: "q3_impact m = occurrence_boost v (min 100 (Q3 * g_exploit))"
    by (simp add: m eq coupled_metrics_q3 g Q3)
  have f4: "q4_fixability m = Q4"
    by (simp add: m eq coupled_metrics_fields Q4)
  have f5: "q5_urgency m = min 100 (Q5 * (0.7 + 0.3 * g_exploit) * (0.8 + 0.2 * g_surface) * f_env)"
    by (simp add: m eq coupled_metrics_q5 g s fe Q5 sv)
  have f6: "dict_has (vget_default v ''vulnerability_ids'' (VStr [])) (kev_data f) = Inr (has_kev m)"
    by (simp add: kev hk)
  have f7: "has_poc m = poc_has_poc (check_poc_availability f (vget_default v ''vulnerability_ids'' (VStr [])))"
    by (simp add: hp coupled_metrics_fields)
  have f8: "epss_score m = (case dict_lookup (vget_default v ''vulnerability_ids'' (VStr [])) (epss_data f) of
                           Some e \<Rightarrow> epss e | None \<Rightarrow> 0)"
    by (simp add: he coupled_metrics_fields)
  have f3': "occurrence_boost v (min 100 (Q3 * g_exploit)) =
           (case rpi_occurrences v of
              Some occ \<Rightarrow>
                if occ > 100 then min 100 (min 100 (Q3 * g_exploit) * 1.5)
                else if occ > 50 then min 100 (min 100 (Q3 * g_exploit) * 1.3)
                else if occ > 10 then min 100 (min 100 (Q3 * g_exploit) * 1.15)
                else min 100 (Q3 * g_exploit)
            | None \<Rightarrow> min 100 (Q3 * g_exploit))"
    by (simp add: occurrence_boost_def)
  show ?thesis
    using f1 f2 f3 f3' f4 f5 f6 f7 f8 by (simp only: simp_thms)
qed

lemma coupling_stage_formulas_example:
  "calculate_rpi default_config fetcher_kev vuln_kev = Inr metrics_kev
   \<and> calculate_q1_exploitability vuln_kev fetcher_kev = 91.9
   \<and> calculate_q2_exposure vuln_kev = Inr 64
   \<and> calculate_q3_impact vuln_kev = 80
   \<and> calculate_q4_fixability vuln_kev = 70
   \<and> calculate_q5_urgency (with_base_scores vuln_kev 91.9 64 80 70) fetcher_kev = 51.25
   \<and> env_factor vuln_kev = 1.10
   \<and> rpi_occurrences vuln_kev = Some 60
   \<and> q1_exploitability metrics_kev = min 100 (91.9 * 1.08)
   \<and> q2_exposure metrics_kev = min 100 (64 * 1.10)
   \<and> q3_impact metrics_kev = min 100 (min 100 (80 * 1.20) * 1.3)
   \<and> q4_fixability metrics_kev = 70
   \<and> q5_urgency metrics_kev = min 100 (51.25 * (0.7 + 0.3 * 1.20) * (0.8 + 0.2 * 1.08) * 1.10)"
proof -
  have r: "calculate_rpi default_config fetcher_kev vuln_kev = Inr metrics_kev"
    by code_simp
  have q1: "91.9 = calculate_q1_exploitability vuln_kev fetcher_kev"
    by code_simp
  have q2: "calculate_q2_exposure vuln_kev = Inr 64"
    by code_simp
  have q3: "80 = calculate_q3_impact vuln_kev"
    by code_simp
  have q4: "70 = calculate_q4_fixability vuln_kev"
    by code_simp
  have q5: "51.25 = calculate_q5_urgency (with_base_scores vuln_kev 91.9 64 80 70) fetcher_kev"
    by code_simp
  have ge: "1.20 = (if has_kev metrics_kev then 1.20 else if has_poc metrics_kev then 1.15
                    else if epss_score metrics_kev \<ge> 0.50 then 1.10
                    else if epss_score metrics_kev \<ge> 0.20 then 1.05 else (1.00::real))"
    by (simp add: metrics_kev_def)
  have gs: "1.08 = (if (64::real) \<ge> 80 then 1.15 else if (64::real) \<ge> 60 then 1.08 else (0.95::real))"
    by simp
  have fe: "1.10 = env_factor vuln_kev"
    by code_simp
  have oc: "rpi_occurrences vuln_kev = Some 60"
    by code_simp
  show ?thesis
    using coupling_stage_formulas [OF r q1 q2 q3 q4 q5 ge gs fe] r q1 [symmetric] q2 q3 [symmetric]
      q4 [symmetric] q5 [symmetric] fe [symmetric] oc
    by simp
qed

text \<open>
  C9. The exploit gate does not follow the stated table for every record. \<^verbatim>\<open>calculate_rpi\<close>
  sets \<^verbatim>\<open>has_kev\<close> and the EPSS score by looking the raw text of \<^verbatim>\<open>vulnerability_ids\<close> up in
  caches that are keyed by the normalised CVE id, while the prefetch, Q1 and the PoC check
  normalise the field with \<^verbatim>\<open>extract_cve_id\<close>. With CVE-2021-44228 in the KEV catalogue, a
  record that names it \<^verbatim>\<open>CVE-2021-44228\<close> gets the gate 1.20 (Q3 50 becomes 60); a record that
  names it \<^verbatim>\<open>cve-2021-44228\<close> or \<^verbatim>\<open>GHSA-jfh8, CVE-2021-44228\<close> is stored as not in KEV,
  with EPSS 0, and gets the PoC gate 1.15 (Q3 50 becomes 57.5), although Q1 scores the three
  records alike.
\<close>

theorem exploit_gate_reads_raw_identifier:
  "kev_data fetcher_kev (extract_cve_id (VStr ''cve-2021-44228''))
     = Some \<lparr> known_ransomware = False, kev_recent = False \<rparr>
   \<and> kev_data fetcher_kev (extract_cve_id (VStr ''GHSA-jfh8, CVE-2021-44228''))
     = Some \<lparr> known_ransomware = False, kev_recent = False \<rparr>
   \<and> map_sum id gate_view (calculate_rpi default_config fetcher_kev vuln_cve_upper)
     = Inr (True, True, 0.9, 60)
   \<and> map_sum id gate_view (calculate_rpi default_config fetcher_kev vuln_cve_lower)
     = Inr (False, True, 0, 57.5)
   \<and> map_sum id gate_view (calculate_rpi default_config fetcher_kev vuln_cve_embedded)
     = Inr (False, True, 0, 57.5)
   \<and> calculate_q1_exploitability vuln_cve_upper fetcher_kev = 91.9
   \<and> calculate_q1_exploitability vuln_cve_lower fetcher_kev = 91.9
   \<and> calculate_q1_exploitability vuln_cve_embedded fetcher_kev = 91.9"
proof -
  have k1: "kev_data fetcher_kev (extract_cve_id (VStr ''cve-2021-44228''))
              = Some \<lparr> known_ransomware = False, kev_recent = False \<rparr>"
    by code_simp
  have k2: "kev_data fetcher_kev (extract_cve_id (VStr ''GHSA-jfh8, CVE-2021-44228''))
              = Some \<lparr> known_ransomware = False, kev_recent = False \<rparr>"
    by code_simp
  have u: "map_sum id gate_view (calculate_rpi default_config fetcher_kev vuln_cve_upper)
             = Inr (True, True, 0.9, 60)"
    by code_simp
  have l: "map_sum id gate_view (calculate_rpi default_config fetcher_kev vuln_cve_lower)
             = Inr (False, True, 0, 57.5)"
    by code_simp
  have e: "map_sum id gate_view (calculate_rpi default_config fetcher_kev vuln_cve_embedded)
             = Inr (False, True, 0, 57.5)"
    by code_simp
  have q1u: "calculate_q1_exploitability vuln_cve_upper fetcher_kev = 91.9"
    by code_simp
  have q1l: "calculate_q1_exploitability vuln_cve_lower fetcher_kev = 91.9"
    by code_simp
  have q1e: "calculate_q1_exploitability vuln_cve_embedded fetcher_kev = 91.9"
    by code_simp
  show ?thesis
    by (intro conjI k1 k2 u l e q1u q1l q1e)
qed

section \<open>The deduplicator\<close>

lemma dedup_loop_result:
  assumes "\<forall>x \<in> set xs. dedup_key x \<noteq> None"
  shows "dedup_loop xs um cn =
           Inr (um @ map (\<lambda>x. (the (dedup_key x), x)) (firsts_unseen (map fst um) xs),
                (\<lambda>k. if occurrences_of k xs = 0 then cn k
                      else Some ((case cn k of None \<Rightarrow> 0 | Some n \<Rightarrow> n) + occurrences_of k xs)))"
  using assms
proof (induction xs arbitrary: um cn)
  case Nil
  then show ?case by (simp add: occurrences_of_def)
next
  case (Cons x xs)
  from Cons.prems obtain k where k: "dedup_key x = Some k" by auto
  have rest: "\<forall>x \<in> set xs. dedup_key x \<noteq> None" using Cons.prems by simp
  show ?case
    by (auto simp: k Cons.IH [OF rest] occurrences_of_def fun_eq_iff split: option.splits)
qed

lemma firsts_unseen_keys:
  assumes "\<forall>x \<in> set xs. dedup_key x \<noteq> None"
  shows "set (map (\<lambda>x. the (dedup_key x)) (firsts_unseen seen xs))
           = set (map (\<lambda>x. the (dedup_key x)) xs) - set seen"
  using assms by (induction xs arbitrary: seen) auto

lemma firsts_unseen_distinct:
  assumes "\<forall>x \<in> set xs. dedup_key x \<noteq> None"
  shows "distinct (map (\<lambda>x. the (dedup_key x)) (firsts_unseen seen xs))"
  using assms
proof (induction xs arbitrary: seen)
  case Nil
  then show ?case by simp
next
  case (Cons x xs)
  then show ?case
    using firsts_unseen_keys [of xs "seen @ [the (dedup_key x)]"] by auto
qed

lemma firsts_unseen_subset: "set (firsts_unseen seen xs) \<subseteq> set xs"
  by (induction xs arbitrary: seen) auto

lemma firsts_unseen_find:
  assumes "\<forall>x \<in> set xs. dedup_key x \<noteq> None" and "y \<in> set (firsts_unseen seen xs)"
  shows "find (\<lambda>z. dedup_key z = dedup_key y) xs = Some y"
  using assms
proof (induction xs arbitrary: seen)
  case Nil
  then show ?case by simp
next
  case (Cons x xs)
  have rest: "\<forall>x \<in> set xs. dedup_key x \<noteq> None" using Cons.prems(1) by simp
  show ?case
  proof (cases "the (dedup_key x) \<in> set seen")
    case True
    then have y: "y \<in> set (firsts_unseen seen xs)" using Cons.prems(2) by simp
    then have "the (dedup_key y) \<in> set (map (\<lambda>x. the (dedup_key x)) (firsts_unseen seen xs))"
      by auto
    then have "the (dedup_key y) \<notin> set seen"
      using firsts_unseen_keys [OF rest, of seen] by auto
    then have "dedup_key x \<noteq> dedup_key y" using True by auto
    then show ?thesis using Cons.IH [OF rest y] by simp
  next
    case False
    show ?thesis
    proof (cases "y = x")
      case True
      then show ?thesis by simp
    next
      case ne: False
      then have y: "y \<in> set (firsts_unseen (seen @ [the (dedup_key x)]) xs)"
        using Cons.prems(2) False by simp
      then have "the (dedup_key y) \<in> set (map (\<lambda>x. the (dedup_key x)) (firsts_unseen (seen @ [the (dedup_key x)]) xs))"
        by auto
      then have "the (dedup_key y) \<noteq> the (dedup_key x)"
        using firsts_unseen_keys [OF rest, of "seen @ [the (dedup_key x)]"] by auto
      then have "dedup_key x \<noteq> dedup_key y" by auto
      then show ?thesis using Cons.IH [OF rest y] by simp
    qed
  qed
qed

lemma dedup_key_set_occurrences:
  "dedup_key (a, v(''nb_occurences'' \<mapsto> n)) = dedup_key (a, v)"
  by (simp add: dedup_key_def dedup_identifier_def vget_default_def Let_def)


lemma deduplicate_result:
  assumes "\<forall>x \<in> set xs. dedup_key x \<noteq> None"
  shows "deduplicate_vulnerabilities xs =
           Inr (map (\<lambda>x. (fst x, (snd x)(''nb_occurences'' \<mapsto>
                              VInt (int (occurrences_of (the (dedup_key x)) xs)))))
                    (firsts_unseen [] xs))"
proof -
  let ?cn = "\<lambda>k. if occurrences_of k xs = 0 then (Map.empty :: hkey \<rightharpoonup> nat) k
                 else Some ((case (Map.empty :: hkey \<rightharpoonup> nat) k of None \<Rightarrow> 0 | Some n \<Rightarrow> n) + occurrences_of k xs)"
  have pos: "0 < occurrences_of (the (dedup_key x)) xs" if "x \<in> set (firsts_unseen [] xs)" for x
  proof -
    from that have x: "x \<in> set xs" using firsts_unseen_subset by auto
    with assms obtain k where "dedup_key x = Some k" by auto
    with x show ?thesis
      by (auto simp: occurrences_of_def filter_empty_conv)
  qed
  have ann: "set_occurrences ?cn (the (dedup_key x), x)
               = (fst x, (snd x)(''nb_occurences'' \<mapsto> VInt (int (occurrences_of (the (dedup_key x)) xs))))"
    if "x \<in> set (firsts_unseen [] xs)" for x
    using pos [OF that] by (simp add: set_occurrences_def)
  have "deduplicate_vulnerabilities xs =
          Inr (map (set_occurrences ?cn) (map (\<lambda>x. (the (dedup_key x), x)) (firsts_unseen [] xs)))"
    by (simp add: deduplicate_vulnerabilities_def dedup_loop_result [OF assms])
  also have "map (set_occurrences ?cn) (map (\<lambda>x. (the (dedup_key x), x)) (firsts_unseen [] xs))
           = map (\<lambda>x. (fst x, (snd x)(''nb_occurences'' \<mapsto>
                              VInt (int (occurrences_of (the (dedup_key x)) xs)))))
                 (firsts_unseen [] xs)"
    using ann by (simp add: comp_def)
  finally show ?thesis .
qed


text \<open>
  What the deduplicator computes when it returns. For every input list whose identifiers are
  hashable (no identifier is a list or a dict), the deduplicator returns; the output holds
  exactly one record per identity;
  that record is the first record of the input with the identity, with \<^verbatim>\<open>nb_occurences\<close>
  set to the number of input records sharing it; the empty input gives the empty output.
\<close>

lemma deduplicate_counts_first_occurrences:
  assumes "\<forall>x \<in> set xs. dedup_key x \<noteq> None"
  shows "\<exists>ys. deduplicate_vulnerabilities xs = Inr ys
           \<and> distinct (map dedup_key ys)
           \<and> set (map dedup_key ys) = set (map dedup_key xs)
           \<and> (\<forall>y \<in> set ys. \<exists>x. find (\<lambda>z. dedup_key z = dedup_key y) xs = Some x
                 \<and> y = (fst x, (snd x)(''nb_occurences'' \<mapsto>
                           VInt (int (length (filter (\<lambda>z. dedup_key z = dedup_key y) xs))))))
           \<and> (xs = [] \<longrightarrow> ys = [])"
proof -
  let ?ann = "\<lambda>x. (fst x, (snd x)(''nb_occurences'' \<mapsto> VInt (int (occurrences_of (the (dedup_key x)) xs))))"
  let ?fs = "firsts_unseen [] xs"
  let ?ys = "map ?ann ?fs"
  have key': "dedup_key (fst x, (snd x)(''nb_occurences'' \<mapsto> n)) = dedup_key x" for x n
    using dedup_key_set_occurrences [of "fst x" "snd x" n] by simp
  have key: "dedup_key (?ann x) = dedup_key x" for x
    by (rule key')
  have some: "dedup_key x = Some (the (dedup_key x))" if "x \<in> set xs" for x
    using assms that by auto
  have sub: "set ?fs \<subseteq> set xs" by (rule firsts_unseen_subset)
  have r: "deduplicate_vulnerabilities xs = Inr ?ys" by (rule deduplicate_result [OF assms])
  have keys: "map dedup_key ?ys = map dedup_key ?fs"
    by (simp add: key comp_def)
  have the_inj: "map dedup_key ?fs = map (\<lambda>x. Some (the (dedup_key x))) ?fs"
    using some sub by (auto intro!: map_cong)
  have d: "distinct (map dedup_key ?ys)"
    unfolding keys the_inj
    using firsts_unseen_distinct [OF assms, of "[]"]
    by (simp add: distinct_map comp_def inj_on_def)
  have s: "set (map dedup_key ?ys) = set (map dedup_key xs)"
  proof -
    have "set (map dedup_key ?fs) = Some ` set (map (\<lambda>x. the (dedup_key x)) ?fs)"
      unfolding the_inj by (simp add: image_image)
    also have "\<dots> = Some ` set (map (\<lambda>x. the (dedup_key x)) xs)"
      using firsts_unseen_keys [OF assms, of "[]"] by simp
    also have "\<dots> = set (map dedup_key xs)"
      using some by (auto simp: image_image intro!: image_cong)
    finally show ?thesis unfolding keys .
  qed
  have f: "\<forall>y \<in> set ?ys. \<exists>x. find (\<lambda>z. dedup_key z = dedup_key y) xs = Some x
                 \<and> y = (fst x, (snd x)(''nb_occurences'' \<mapsto>
                           VInt (int (length (filter (\<lambda>z. dedup_key z = dedup_key y) xs)))))"
  proof
    fix y assume "y \<in> set ?ys"
    then obtain x where x: "x \<in> set ?fs" and y: "y = ?ann x" by auto
    have fx: "find (\<lambda>z. dedup_key z = dedup_key x) xs = Some x"
      by (rule firsts_unseen_find [OF assms x])
    have "x \<in> set xs" using x sub by auto
    then have occ: "occurrences_of (the (dedup_key x)) xs = length (filter (\<lambda>z. dedup_key z = dedup_key x) xs)"
      using some [of x] by (simp add: occurrences_of_def)
    show "\<exists>x. find (\<lambda>z. dedup_key z = dedup_key y) xs = Some x
                 \<and> y = (fst x, (snd x)(''nb_occurences'' \<mapsto>
                           VInt (int (length (filter (\<lambda>z. dedup_key z = dedup_key y) xs)))))"
      using fx occ by (intro exI [of _ x]) (simp add: y key')
  qed
  have e: "xs = [] \<longrightarrow> ?ys = []" by simp
  show ?thesis using r d s f e by blast
qed


lemma deduplicate_counts_example:
  "\<exists>ys. deduplicate_vulnerabilities dedup_input = Inr ys
      \<and> map summary ys = [(1, VStr ''first'', VInt 2), (2, VStr ''other'', VInt 1)]
      \<and> distinct (map dedup_key ys)
      \<and> set (map dedup_key ys) = set (map dedup_key dedup_input)"
proof -
  have "list_all (\<lambda>x. dedup_key x \<noteq> None) dedup_input"
    by code_simp
  then have h: "\<forall>x \<in> set dedup_input. dedup_key x \<noteq> None"
    by (simp add: list_all_iff)
  from deduplicate_counts_first_occurrences [OF h] obtain ys where
    ys: "deduplicate_vulnerabilities dedup_input = Inr ys"
    and p: "distinct (map dedup_key ys)" "set (map dedup_key ys) = set (map dedup_key dedup_input)"
    by blast
  have "map_sum id (map summary) (deduplicate_vulnerabilities dedup_input)
          = Inr [(1, VStr ''first'', VInt 2), (2, VStr ''other'', VInt 1)]"
    by code_simp
  then have "map summary ys = [(1, VStr ''first'', VInt 2), (2, VStr ''other'', VInt 1)]"
    by (simp add: ys)
  with ys p show ?thesis by (intro exI [of _ ys]) simp
qed

text \<open>
  C4. The deduplicator does not return for every input. The identifier is the raw value of
  \<^verbatim>\<open>vulnerability_ids\<close> (or of the next field that is truthy) and
  \<^verbatim>\<open>counts.get(identifier, 0)\<close> hashes it: a record whose identifier is a JSON array or a
  JSON object raises TypeError, and \<^verbatim>\<open>process_vulnerabilities\<close> ends with that error
  before any record is scored. \<^verbatim>\<open>extract_cve_id\<close>, which the next step applies to the same
  field, accepts the array and reads the CVE from it.
\<close>

theorem deduplicate_unhashable_identifier:
  "deduplicate_vulnerabilities dedup_list_id = Inl TypeError
   \<and> deduplicate_vulnerabilities dedup_dict_id = Inl TypeError
   \<and> process_vulnerabilities default_config no_signals id dedup_list_id = Inl TypeError
   \<and> process_vulnerabilities default_config no_signals id dedup_dict_id = Inl TypeError
   \<and> extract_cve_id (vget (snd (hd dedup_list_id)) ''vulnerability_ids'') = ''CVE-2021-44228''"
proof -
  have l: "deduplicate_vulnerabilities dedup_list_id = Inl TypeError"
    by (simp add: deduplicate_vulnerabilities_def dedup_list_id_def dedup_key_def
          dedup_identifier_def Let_def vget_default_def py_or_def)
  have d: "deduplicate_vulnerabilities dedup_dict_id = Inl TypeError"
    by (simp add: deduplicate_vulnerabilities_def dedup_dict_id_def dedup_key_def
          dedup_identifier_def Let_def vget_default_def py_or_def)
  have pl: "process_vulnerabilities default_config no_signals id dedup_list_id = Inl TypeError"
    by (simp add: process_vulnerabilities_def l)
  have pd: "process_vulnerabilities default_config no_signals id dedup_dict_id = Inl TypeError"
    by (simp add: process_vulnerabilities_def d)
  have x: "extract_cve_id (vget (snd (hd dedup_list_id)) ''vulnerability_ids'') = ''CVE-2021-44228''"
    by code_simp
  show ?thesis
    by (intro conjI l d pl pd x)
qed

subsection \<open>The scenario of the duplicated database record\<close>

lemma math_log10_2: "0 < math_log10 2" "math_log10 2 < 1"
  by (simp_all add: math_log10_def)

lemma c5_dedup: "deduplicate_vulnerabilities c5_input = Inr [(1, vuln_db_dedup)]"
  by (simp add: deduplicate_vulnerabilities_def c5_input_def dedup_key_def dedup_identifier_def Let_def
       vuln_db_def vuln_db_dedup_def vget_default_def py_or_def set_occurrences_def)

lemma c5_count: "vget vuln_db_dedup ''nb_occurences'' = VInt 2"
  by code_simp

lemma c5_domain: "classify_domain vuln_db_dedup = ''database''"
  by code_simp

lemma c5_base: "q3_base_impact vuln_db_dedup = 98"
  by code_simp

lemma c5_occ: "safe_float (vget vuln_db_dedup ''nb_occurences'') 1 = 2"
  by code_simp

lemma c5_amplifier: "q3_occurrence_multiplier 2 = 1 + math_log10 2 * 0.2"
  by (simp add: q3_occurrence_multiplier_def)

lemma c5_rest:
  "q3_criticality_multiplier (vget vuln_db_dedup ''criticality'') = 1"
  "q3_domain_multiplier ''database'' = 1.4"
  "q3_sensitivity_multiplier vuln_db_dedup = 1"
  "is_true (vget vuln_db_dedup ''verified'') = False"
  by code_simp+

text \<open>
  C5 (as amended). In the scenario, deduplication yields one record whose \<^verbatim>\<open>nb_occurences\<close>
  is 2: the count of the batch replaces the 150 the record carried. Q3 of that record is
  computed with the amplifier for 2 occurrences, \<open>1 + 0.2 * log10(2)\<close>, and the database
  multiplier 1.4; clamped, it is 100. The amplifier 2.0 belongs to the raw record only.
\<close>

theorem dedup_scenario_q3:
  "deduplicate_vulnerabilities c5_input = Inr [(1, vuln_db_dedup)]
   \<and> vget vuln_db_dedup ''nb_occurences'' = VInt 2
   \<and> q3_occurrence_multiplier (safe_float (vget vuln_db_dedup ''nb_occurences'') 1)
       = 1 + math_log10 2 * 0.2
   \<and> q3_domain_multiplier (classify_domain vuln_db_dedup) = 1.4
   \<and> calculate_q3_impact vuln_db_dedup = 100
   \<and> q3_occurrence_multiplier (safe_float (vget vuln_db ''nb_occurences'') 1) = 2.0"
proof -
  have raw: "q3_occurrence_multiplier (safe_float (vget vuln_db ''nb_occurences'') 1) = 2.0"
    by code_simp
  have amp: "q3_occurrence_multiplier (safe_float (vget vuln_db_dedup ''nb_occurences'') 1)
               = 1 + math_log10 2 * 0.2"
    by (simp only: c5_occ c5_amplifier)
  have dom: "q3_domain_multiplier (classify_domain vuln_db_dedup) = 1.4"
    by (simp only: c5_domain c5_rest)
  have q3: "calculate_q3_impact vuln_db_dedup = 100"
    using math_log10_2
    by (simp add: calculate_q3_impact_def c5_domain c5_base c5_occ c5_amplifier c5_rest)
  show ?thesis
    by (intro conjI c5_dedup c5_count amp dom q3 raw)
qed

text \<open>The claim as stated fails: the amplifier applied to the deduplicated record is not 2.0.\<close>

theorem dedup_scenario_amplifier_not_2:
  "\<not> (\<exists>y. deduplicate_vulnerabilities c5_input = Inr [y]
          \<and> vget (snd y) ''nb_occurences'' = VInt 2
          \<and> q3_occurrence_multiplier (safe_float (vget (snd y) ''nb_occurences'') 1) = 2.0
          \<and> q3_domain_multiplier (classify_domain (snd y)) = 1.4)"
proof
  assume "\<exists>y. deduplicate_vulnerabilities c5_input = Inr [y]
          \<and> vget (snd y) ''nb_occurences'' = VInt 2
          \<and> q3_occurrence_multiplier (safe_float (vget (snd y) ''nb_occurences'') 1) = 2.0
          \<and> q3_domain_multiplier (classify_domain (snd y)) = 1.4"
  then obtain y where y: "deduplicate_vulnerabilities c5_input = Inr [y]"
    and a: "q3_occurrence_multiplier (safe_float (vget (snd y) ''nb_occurences'') 1) = 2.0"
    by blast
  from y have "snd y = vuln_db_dedup"
    by (auto simp: c5_dedup)
  with a have "1 + math_log10 2 * 0.2 = (2::real)"
    by (simp only: c5_occ c5_amplifier)
  with math_log10_2 show False
    by simp
qed

section \<open>Sorting and the funnel\<close>







lemma group_add_nonempty:
  assumes "\<forall>(k, idxs) \<in> set gs. idxs \<noteq> []"
  shows "\<forall>(k, idxs) \<in> set (group_add key idx gs). idxs \<noteq> []"
  using assms by (induction key idx gs rule: group_add.induct) auto







lemma select_candidate_None:
  assumes "\<forall>g \<in> set gs. \<not> qualifies thr eps head (snd g)"
  shows "select_candidate thr eps head gs = None"
proof -
  have "foldl (\<lambda>candidate (key, idxs).
              if qualifies thr eps head idxs \<and>
                 (case candidate of None \<Rightarrow> True | Some c \<Rightarrow> length idxs > length c)
              then Some idxs else candidate) None gs = None"
    using assms by (induction gs) auto
  then show ?thesis by (simp add: select_candidate_def)
qed















section \<open>Sort keys and the order of the results\<close>

text \<open>
  C3. The comparison the primary sort makes is not total. The two records of
  \<open>mixed_deadline_records\<close> have distinct unique identifiers and the same RPI; their keys
  agree up to the SLA deadline, which is \<^verbatim>\<open>None\<close> in one and a date in the other
  (\<^verbatim>\<open>get('sla_deadline', '9999-12-31')\<close> gives the default only for a missing key), and
  \<^verbatim>\<open><\<close> between \<^verbatim>\<open>None\<close> and a string raises TypeError: the sort, and with it the
  pipeline, stops.
\<close>

theorem mixed_deadline_comparison_raises:
  "deduplicate_vulnerabilities mixed_deadline_records = Inr (map (\<lambda>x. (fst x, (snd x)(''nb_occurences'' \<mapsto> VInt 1))) mixed_deadline_records)
   \<and> py_eq (key_unique_id (snd (mixed_deadline_records ! 0))) (key_unique_id (snd (mixed_deadline_records ! 1))) = False
   \<and> py_lt (VStr ''2025-01-01'') VNone = Inl TypeError
   \<and> map_sum id (map item_title) (process_vulnerabilities default_config no_signals id mixed_deadline_records) = Inl TypeError"
proof -
  have a: "deduplicate_vulnerabilities mixed_deadline_records = Inr (map (\<lambda>x. (fst x, (snd x)(''nb_occurences'' \<mapsto> VInt 1))) mixed_deadline_records)"
    by (simp add: deduplicate_vulnerabilities_def mixed_deadline_records_def dedup_key_def dedup_identifier_def Let_def
       vget_default_def py_or_def set_occurrences_def)
  have b: "py_eq (key_unique_id (snd (mixed_deadline_records ! 0))) (key_unique_id (snd (mixed_deadline_records ! 1))) = False"
    by code_simp
  have c: "py_lt (VStr ''2025-01-01'') VNone = Inl TypeError"
    by code_simp
  have d: "map_sum id (map item_title) (process_vulnerabilities default_config no_signals id mixed_deadline_records) = Inl TypeError"
    by code_simp
  show ?thesis by (intro conjI a b c d)
qed


text \<open>
  C8. The order of the output depends on the order in which the workers complete. The two
  records of \<open>tied_records\<close> are distinct findings with the same RPI and the same tie-break
  key (its last slot is \<^verbatim>\<open>None\<close> for both: the fallback to \<^verbatim>\<open>id\<close> is not taken when
  \<^verbatim>\<open>unique_id_from_tool\<close> is present and null); the stable sort leaves them in completion
  order, so the two completion orders give two different rankings of the same input.
\<close>

theorem completion_order_decides_ties:
  "map_sum id (map item_title) (process_vulnerabilities default_config no_signals id tied_records)
     = Inr [VStr ''a'', VStr ''b'']
   \<and> map_sum id (map item_title) (process_vulnerabilities default_config no_signals rev tied_records)
     = Inr [VStr ''b'', VStr ''a'']"
proof -
  have a: "map_sum id (map item_title) (process_vulnerabilities default_config no_signals id tied_records)
     = Inr [VStr ''a'', VStr ''b'']"
    by code_simp
  have b: "map_sum id (map item_title) (process_vulnerabilities default_config no_signals rev tied_records)
     = Inr [VStr ''b'', VStr ''a'']"
    by code_simp
  show ?thesis by (intro conjI a b)
qed


section \<open>Validation of the weights\<close>

text \<open>
  C6. \<^verbatim>\<open>validate\<close> rejects weights that do not sum to 1, but nothing calls it: a
  prioritizer built with weights that sum to 2.5 is accepted and scores records with them.
\<close>

theorem weights_never_validated:
  "validate config_bad_weights = Inl ValueError
   \<and> prioritizer_init (Some config_bad_weights) = Inr config_bad_weights
   \<and> map_sum id rpi_score (calculate_rpi config_bad_weights fetcher_zero_epss vuln_log4j) = Inr 99.9631078125"
proof -
  have a: "validate config_bad_weights = Inl ValueError"
    by code_simp
  have b: "prioritizer_init (Some config_bad_weights) = Inr config_bad_weights"
    by (simp add: prioritizer_init_def)
  have c: "map_sum id rpi_score (calculate_rpi config_bad_weights fetcher_zero_epss vuln_log4j) = Inr 99.9631078125"
    by code_simp
  show ?thesis by (intro conjI a b c)
qed


end
